theory Spec2Isabelle
  imports Complex_Main "HOL-Library.FSet" "HOL-Library.AList" "HOL-Library.Char_ord" "HOL-Library.List_Lexorder"
begin

section \<open>Task management core: values, objects, errors\<close>

text \<open>
  The program is Python, so a task is an object whose instance attributes hold dynamically
  typed values, and \<open>TaskManager.update_task\<close> assigns attributes by name. The model keeps
  that: a task is its class together with its attribute dictionary, and every method reads
  and writes attributes by name, raising where Python raises.

  The universe of values is closed: \<open>None\<close>, integers, finite floats (the real number
  a double stands for), strings (the list of their characters), naive datetimes (the count
  of microseconds since \<open>datetime.min\<close>), the members of the two enumerations, and lists
  and sets of strings. Booleans, infinite and not-a-number floats and nested containers
  are not part of it.

  What the interpreter and the standard library decide, and the program only calls, is a
  parameter of the function that calls it: the clock, \<open>uuid4\<close>, the text of a datetime
  and its parser, the parser of \<open>float\<close> on strings, \<open>str.lower\<close>, the addition of
  doubles, the order in which a set is iterated, the containment test of an enumeration
  class on an operand that is not an enumeration member, and the names an object inherits
  from \<open>object\<close> and \<open>ABC\<close>.
\<close>

datatype Priority = LOW | MEDIUM | HIGH | URGENT

datatype TaskStatus = NOT_STARTED | IN_PROGRESS | BLOCKED | COMPLETED | CANCELLED

datatype task_class = SimpleTask | ProjectTask | RecurringTask

datatype pyval =
    VNone
  | VInt int
  | VFloat real
  | VStr string
  | VDatetime int
  | VPriority Priority
  | VStatus TaskStatus
  | VStrList "string list"
  | VStrSet "string fset"

datatype error = ValueError | TypeError | AttributeError | KeyError | OverflowError

text \<open>A call either returns a value or raises.\<close>

datatype 'a outcome = Returned 'a | Raised error

record task =
  cls :: task_class
  attrs :: "string \<Rightarrow> pyval option"

definition getattr :: "task \<Rightarrow> string \<Rightarrow> pyval outcome" where
  "getattr self name = (case attrs self name of None \<Rightarrow> Raised AttributeError | Some v \<Rightarrow> Returned v)"

definition setattr :: "task \<Rightarrow> string \<Rightarrow> pyval \<Rightarrow> task" where
  "setattr self name v = self\<lparr>attrs := (attrs self)(name \<mapsto> v)\<rparr>"

text \<open>Truth value of an object, as \<open>if x\<close> and \<open>x and y\<close> test it.\<close>

fun truthy :: "pyval \<Rightarrow> bool" where
  "truthy VNone = False"
| "truthy (VInt i) = (i \<noteq> 0)"
| "truthy (VFloat x) = (x \<noteq> 0)"
| "truthy (VStr s) = (s \<noteq> [])"
| "truthy (VDatetime d) = True"
| "truthy (VPriority p) = True"
| "truthy (VStatus s) = True"
| "truthy (VStrList xs) = (xs \<noteq> [])"
| "truthy (VStrSet S) = (S \<noteq> {||})"

text \<open>
  \<open>x in TaskStatus\<close>: true of the five members of the class and false of the members of
  the other enumeration. On an operand that is not an enumeration member the answer is the
  interpreter's and has changed between versions (false up to Python 3.7, a \<open>TypeError\<close>
  from 3.8 to 3.11, true of the values of the members from 3.12): the parameter \<open>plain_in\<close>.
\<close>

fun in_TaskStatus :: "(pyval \<Rightarrow> bool outcome) \<Rightarrow> pyval \<Rightarrow> bool outcome" where
  "in_TaskStatus plain_in (VStatus s) = Returned True"
| "in_TaskStatus plain_in (VPriority p) = Returned False"
| "in_TaskStatus plain_in v = plain_in v"

section \<open>Task\<close>

text \<open>
  \<open>Task.__init__\<close>. The identifier (\<open>uuid.uuid4()\<close>) and the clock reading
  (\<open>datetime.now()\<close>) are parameters.
\<close>

definition Task_init :: "task_class \<Rightarrow> string \<Rightarrow> int \<Rightarrow> pyval \<Rightarrow> pyval \<Rightarrow> pyval \<Rightarrow> pyval \<Rightarrow> task" where
  "Task_init c uuid now title description priority due_date =
     \<lparr>cls = c,
      attrs = [''id'' \<mapsto> VStr uuid,
               ''title'' \<mapsto> title,
               ''description'' \<mapsto> description,
               ''priority'' \<mapsto> priority,
               ''status'' \<mapsto> VStatus NOT_STARTED,
               ''created_at'' \<mapsto> VDatetime now,
               ''updated_at'' \<mapsto> VDatetime now,
               ''due_date'' \<mapsto> due_date,
               ''completion_date'' \<mapsto> VNone,
               ''tags'' \<mapsto> VStrSet {||}]\<rparr>"

text \<open>
  \<open>Task.update_status\<close>. The check comes first, so a rejected value leaves the task as
  it was, whether the test raises or the method does. \<open>now\<close> is the reading of
  \<open>datetime.now()\<close>.
\<close>

definition update_status :: "(pyval \<Rightarrow> bool outcome) \<Rightarrow> task \<Rightarrow> pyval \<Rightarrow> int \<Rightarrow> unit outcome \<times> task" where
  "update_status plain_in self status now =
     (case in_TaskStatus plain_in status of
        Raised e \<Rightarrow> (Raised e, self)
      | Returned False \<Rightarrow> (Raised ValueError, self)
      | Returned True \<Rightarrow>
          (let self1 = setattr self ''status'' status;
               self2 = setattr self1 ''updated_at'' (VDatetime now)
           in if status = VStatus COMPLETED
              then (case getattr self2 ''updated_at'' of
                      Raised e \<Rightarrow> (Raised e, self2)
                    | Returned u \<Rightarrow> (Returned (), setattr self2 ''completion_date'' u))
              else (Returned (), self2)))"

text \<open>
  \<open>datetime.now() > x\<close>: defined between datetimes, a \<open>TypeError\<close> against every
  other value of the universe.
\<close>

fun datetime_gt :: "int \<Rightarrow> pyval \<Rightarrow> bool outcome" where
  "datetime_gt now (VDatetime d) = Returned (now > d)"
| "datetime_gt now v = Raised TypeError"

text \<open>
  \<open>Task.is_overdue\<close>. \<open>and\<close> evaluates \<open>self.due_date\<close> first and reads the status only
  when the due date is truthy. The method assigns nothing, so it is a function to a result
  only.
\<close>

definition is_overdue :: "task \<Rightarrow> int \<Rightarrow> bool outcome" where
  "is_overdue self now =
     (case getattr self ''due_date'' of
        Raised e \<Rightarrow> Raised e
      | Returned due \<Rightarrow>
          if \<not> truthy due then Returned False
          else (case getattr self ''status'' of
                  Raised e \<Rightarrow> Raised e
                | Returned st \<Rightarrow>
                    if st \<noteq> VStatus COMPLETED then datetime_gt now due
                    else Returned False))"

text \<open>
  \<open>x.lower()\<close>: the library's \<open>str.lower\<close>, the parameter \<open>lower\<close>, on a string; a
  value that is not a string has no such method.
\<close>

fun py_lower :: "(string \<Rightarrow> string) \<Rightarrow> pyval \<Rightarrow> string outcome" where
  "py_lower lower (VStr s) = Returned (lower s)"
| "py_lower lower v = Raised AttributeError"

text \<open>\<open>Task.add_tag\<close>: only a set has the method \<open>add\<close>.\<close>

definition add_tag :: "(string \<Rightarrow> string) \<Rightarrow> task \<Rightarrow> pyval \<Rightarrow> int \<Rightarrow> unit outcome \<times> task" where
  "add_tag lower self tag now =
     (case getattr self ''tags'' of
        Raised e \<Rightarrow> (Raised e, self)
      | Returned (VStrSet S) \<Rightarrow>
          (case py_lower lower tag of
             Raised e \<Rightarrow> (Raised e, self)
           | Returned s \<Rightarrow>
               (Returned (),
                setattr (setattr self ''tags'' (VStrSet (finsert s S))) ''updated_at'' (VDatetime now)))
      | Returned v \<Rightarrow> (Raised AttributeError, self))"

section \<open>ProjectTask\<close>

definition ProjectTask_init :: "string \<Rightarrow> int \<Rightarrow> pyval \<Rightarrow> pyval \<Rightarrow> pyval \<Rightarrow> pyval \<Rightarrow> pyval \<Rightarrow> task" where
  "ProjectTask_init uuid now title project description priority due_date =
     (let self = Task_init ProjectTask uuid now title description priority due_date;
          self = setattr self ''project'' project;
          self = setattr self ''dependencies'' (VStrSet {||})
      in setattr self ''estimated_hours'' (VFloat 1.0))"

text \<open>
  The double nearest to an integer, ties to the even significand: an integer of at most 53
  bits is a double; a longer one keeps its 53 leading bits, rounded; \<open>None\<close> when the
  rounded value is \<open>2 ^ 1024\<close> or more, where \<open>float\<close> raises \<open>OverflowError\<close>.
\<close>

fun bit_length :: "nat \<Rightarrow> nat" where
  "bit_length n = (if n = 0 then 0 else Suc (bit_length (n div 2)))"

declare bit_length.simps [simp del]

definition float_of_int :: "int \<Rightarrow> real option" where
  "float_of_int i =
     (let a = nat \<bar>i\<bar>; n = bit_length a
      in if n \<le> 53 then Some (of_int i)
         else let sh = n - 53;
                  q = a div 2 ^ sh;
                  r = a mod 2 ^ sh;
                  half = 2 ^ (sh - 1);
                  q' = (if half < r \<or> (r = half \<and> odd q) then q + 1 else q);
                  m = q' * 2 ^ sh
              in if 2 ^ 1024 \<le> m then None
                 else Some (if i < 0 then - of_nat m else of_nat m))"

text \<open>
  \<open>float(x)\<close>. A float is returned as it is and an integer is rounded to a double; a
  string is parsed by the library, whose parser is the parameter \<open>parse\<close> (\<open>None\<close> where
  it raises \<open>ValueError\<close>); every other value of the universe is a \<open>TypeError\<close>.
\<close>

fun py_float :: "(string \<Rightarrow> real option) \<Rightarrow> pyval \<Rightarrow> real outcome" where
  "py_float parse (VFloat x) = Returned x"
| "py_float parse (VInt i) = (case float_of_int i of None \<Rightarrow> Raised OverflowError | Some x \<Rightarrow> Returned x)"
| "py_float parse (VStr s) = (case parse s of None \<Rightarrow> Raised ValueError | Some x \<Rightarrow> Returned x)"
| "py_float parse v = Raised TypeError"

text \<open>\<open>ProjectTask.set_estimate\<close>: the conversion is the only check.\<close>

definition set_estimate :: "(string \<Rightarrow> real option) \<Rightarrow> task \<Rightarrow> pyval \<Rightarrow> int \<Rightarrow> unit outcome \<times> task" where
  "set_estimate parse self hours now =
     (case py_float parse hours of
        Raised e \<Rightarrow> (Raised e, self)
      | Returned x \<Rightarrow>
          (Returned (),
           setattr (setattr self ''estimated_hours'' (VFloat x)) ''updated_at'' (VDatetime now)))"

section \<open>RecurringTask\<close>

definition RecurringTask_init :: "string \<Rightarrow> int \<Rightarrow> pyval \<Rightarrow> pyval \<Rightarrow> pyval \<Rightarrow> pyval \<Rightarrow> pyval \<Rightarrow> task" where
  "RecurringTask_init uuid now title frequency description priority due_date =
     (let self = Task_init RecurringTask uuid now title description priority due_date;
          self = setattr self ''frequency'' frequency;
          self = setattr self ''recurrence_count'' (VInt 0)
      in setattr self ''last_completed'' VNone)"

text \<open>\<open>timedelta(days=n)\<close> in microseconds.\<close>

definition days :: "int \<Rightarrow> int" where
  "days n = n * 86400000000"

text \<open>
  \<open>x += 1\<close>: exact on an integer; on a float the sum is the one of double arithmetic,
  the parameter \<open>float_succ\<close>.
\<close>

fun add_one :: "(real \<Rightarrow> real) \<Rightarrow> pyval \<Rightarrow> pyval outcome" where
  "add_one float_succ (VInt n) = Returned (VInt (n + 1))"
| "add_one float_succ (VFloat x) = Returned (VFloat (float_succ x))"
| "add_one float_succ v = Raised TypeError"

text \<open>
  The datetimes of the library go from \<open>datetime.min\<close>, the first microsecond of the year
  1, to \<open>datetime.max\<close>, the last microsecond of the year 9999, which is 3652059 days
  later. \<open>x += timedelta(...)\<close> raises \<open>OverflowError\<close> when the sum leaves this range.
\<close>

definition datetime_max :: int where
  "datetime_max = 3652059 * 86400000000 - 1"

definition valid_datetime :: "int \<Rightarrow> bool" where
  "valid_datetime d = (0 \<le> d \<and> d \<le> datetime_max)"

fun add_timedelta :: "pyval \<Rightarrow> int \<Rightarrow> pyval outcome" where
  "add_timedelta (VDatetime d) delta =
     (if valid_datetime (d + delta) then Returned (VDatetime (d + delta)) else Raised OverflowError)"
| "add_timedelta v delta = Raised TypeError"

text \<open>
  The offset of the \<open>if\<close>/\<open>elif\<close> chain of \<open>complete_occurrence\<close>; \<open>None\<close> when no
  branch is taken.
\<close>

definition frequency_offset :: "pyval \<Rightarrow> int option" where
  "frequency_offset f =
     (if f = VStr ''daily'' then Some (days 1)
      else if f = VStr ''weekly'' then Some (days 7)
      else if f = VStr ''monthly'' then Some (days 30)
      else if f = VStr ''yearly'' then Some (days 365)
      else None)"

text \<open>
  \<open>RecurringTask.complete_occurrence\<close>. The clock is read twice: \<open>now1\<close> for
  \<open>last_completed\<close> and \<open>now2\<close> for \<open>updated_at\<close>. An exception leaves the assignments
  made before it.
\<close>

definition advance_due_date :: "task \<Rightarrow> unit outcome \<times> task" where
  "advance_due_date self =
     (case getattr self ''due_date'' of
        Raised e \<Rightarrow> (Raised e, self)
      | Returned due \<Rightarrow>
          if \<not> truthy due then (Returned (), self)
          else (case getattr self ''frequency'' of
                  Raised e \<Rightarrow> (Raised e, self)
                | Returned f \<Rightarrow>
                    (case frequency_offset f of
                       None \<Rightarrow> (Returned (), self)
                     | Some delta \<Rightarrow>
                         (case add_timedelta due delta of
                            Raised e \<Rightarrow> (Raised e, self)
                          | Returned due' \<Rightarrow> (Returned (), setattr self ''due_date'' due')))))"

definition complete_occurrence :: "(real \<Rightarrow> real) \<Rightarrow> task \<Rightarrow> int \<Rightarrow> int \<Rightarrow> unit outcome \<times> task" where
  "complete_occurrence float_succ self now1 now2 =
     (let self1 = setattr self ''last_completed'' (VDatetime now1)
      in case getattr self1 ''recurrence_count'' of
           Raised e \<Rightarrow> (Raised e, self1)
         | Returned c \<Rightarrow>
             (case add_one float_succ c of
                Raised e \<Rightarrow> (Raised e, self1)
              | Returned c' \<Rightarrow>
                  (let self2 = setattr self1 ''recurrence_count'' c';
                       self3 = setattr self2 ''status'' (VStatus NOT_STARTED)
                   in case advance_due_date self3 of
                        (Raised e, self4) \<Rightarrow> (Raised e, self4)
                      | (Returned u, self4) \<Rightarrow>
                          (Returned (), setattr self4 ''updated_at'' (VDatetime now2)))))"

section \<open>TaskFilter\<close>

text \<open>
  \<open>s in x\<close> for a string \<open>s\<close>: membership in a set or a list, the substring test on a
  string, a \<open>TypeError\<close> on a value that is no container.
\<close>

fun is_substring :: "string \<Rightarrow> string \<Rightarrow> bool" where
  "is_substring s [] = (s = [])"
| "is_substring s (c # t) = (take (length s) (c # t) = s \<or> is_substring s t)"

fun py_contains :: "pyval \<Rightarrow> string \<Rightarrow> bool outcome" where
  "py_contains (VStrSet S) s = Returned (s |\<in>| S)"
| "py_contains (VStrList xs) s = Returned (s \<in> set xs)"
| "py_contains (VStr t) s = Returned (is_substring s t)"
| "py_contains v s = Raised TypeError"

text \<open>
  \<open>all(tag.lower() in task.tags for tag in tags)\<close>: the generator is consumed in order and
  \<open>all\<close> stops at the first false test.
\<close>

fun all_tags_in :: "(string \<Rightarrow> string) \<Rightarrow> task \<Rightarrow> pyval list \<Rightarrow> bool outcome" where
  "all_tags_in lower task [] = Returned True"
| "all_tags_in lower task (tag # tags) =
     (case py_lower lower tag of
        Raised e \<Rightarrow> Raised e
      | Returned s \<Rightarrow>
          (case getattr task ''tags'' of
             Raised e \<Rightarrow> Raised e
           | Returned ts \<Rightarrow>
               (case py_contains ts s of
                  Raised e \<Rightarrow> Raised e
                | Returned b \<Rightarrow> if b then all_tags_in lower task tags else Returned False)))"

fun filter_by_multiple_tags :: "(string \<Rightarrow> string) \<Rightarrow> task list \<Rightarrow> pyval list \<Rightarrow> task list outcome" where
  "filter_by_multiple_tags lower [] tags = Returned []"
| "filter_by_multiple_tags lower (task # rest) tags =
     (case all_tags_in lower task tags of
        Raised e \<Rightarrow> Raised e
      | Returned b \<Rightarrow>
          (case filter_by_multiple_tags lower rest tags of
             Raised e \<Rightarrow> Raised e
           | Returned kept \<Rightarrow> Returned (if b then task # kept else kept)))"

section \<open>TaskManager\<close>

text \<open>
  A dictionary with string keys (a history record, a stored task record) is an association
  list. The manager's \<open>tasks\<close> dictionary is an association list from keys to the tasks it
  owns, in insertion order; \<open>task_history\<close> is the list of history records.
\<close>

type_synonym dict = "(string \<times> pyval) list"

record manager =
  tasks :: "(pyval \<times> task) list"
  task_history :: "dict list"

definition TaskManager_init :: manager where
  "TaskManager_init = \<lparr>tasks = [], task_history = []\<rparr>"

text \<open>
  Dictionary keys: lists and sets are unhashable, and a float that is a whole number is the
  same key as that integer.
\<close>

fun hashable :: "pyval \<Rightarrow> bool" where
  "hashable (VStrList xs) = False"
| "hashable (VStrSet S) = False"
| "hashable v = True"

fun hkey :: "pyval \<Rightarrow> pyval" where
  "hkey (VFloat x) = (if of_int \<lfloor>x\<rfloor> = x then VInt \<lfloor>x\<rfloor> else VFloat x)"
| "hkey v = v"

definition tasks_get :: "manager \<Rightarrow> pyval \<Rightarrow> task option" where
  "tasks_get self k = map_of (tasks self) (hkey k)"

definition tasks_set :: "manager \<Rightarrow> pyval \<Rightarrow> task \<Rightarrow> manager" where
  "tasks_set self k task = self\<lparr>tasks := AList.update (hkey k) task (tasks self)\<rparr>"

definition tasks_pop :: "manager \<Rightarrow> pyval \<Rightarrow> manager" where
  "tasks_pop self k = self\<lparr>tasks := AList.delete (hkey k) (tasks self)\<rparr>"

text \<open>
  \<open>TaskManager._record_history\<close>. The record is built (reading \<open>task.id\<close>, then
  \<open>task.title\<close>, then the clock) before it is appended. \<open>isoformat\<close> is
  \<open>datetime.isoformat\<close>.
\<close>

definition record_history :: "(int \<Rightarrow> string) \<Rightarrow> manager \<Rightarrow> string \<Rightarrow> task \<Rightarrow> int \<Rightarrow> unit outcome \<times> manager" where
  "record_history isoformat self act task now =
     (case getattr task ''id'' of
        Raised e \<Rightarrow> (Raised e, self)
      | Returned i \<Rightarrow>
          (case getattr task ''title'' of
             Raised e \<Rightarrow> (Raised e, self)
           | Returned t \<Rightarrow>
               (Returned (),
                self\<lparr>task_history := task_history self @
                   [[(''action'', VStr act), (''task_id'', i), (''task_title'', t),
                     (''timestamp'', VStr (isoformat now))]]\<rparr>)))"

text \<open>\<open>TaskManager.add_task\<close>.\<close>

definition add_task :: "(int \<Rightarrow> string) \<Rightarrow> manager \<Rightarrow> task \<Rightarrow> int \<Rightarrow> task outcome \<times> manager" where
  "add_task isoformat self task now =
     (case getattr task ''id'' of
        Raised e \<Rightarrow> (Raised e, self)
      | Returned i \<Rightarrow>
          if \<not> hashable i then (Raised TypeError, self)
          else (case record_history isoformat (tasks_set self i task) ''add'' task now of
                  (Raised e, self') \<Rightarrow> (Raised e, self')
                | (Returned u, self') \<Rightarrow> (Returned task, self')))"

text \<open>\<open>TaskManager.get_task\<close>.\<close>

definition get_task :: "manager \<Rightarrow> pyval \<Rightarrow> task option outcome" where
  "get_task self k = (if \<not> hashable k then Raised TypeError else Returned (tasks_get self k))"

text \<open>
  \<open>hasattr(task, key)\<close>: an instance attribute, a name the class of the task defines, or
  a name the object inherits from \<open>object\<close> and \<open>ABC\<close>. Three inherited names cannot be
  assigned with the values of the universe: \<open>__class__\<close> takes a class and \<open>__dict__\<close> a
  dictionary (\<open>TypeError\<close>), and \<open>__weakref__\<close> is read-only (\<open>AttributeError\<close>). The
  other inherited names (\<open>__doc__\<close>, \<open>__hash__\<close>, \<open>_abc_impl\<close> and so on) depend on the
  version of the interpreter and are the parameter \<open>inherited\<close>; assigning one of them
  stores an instance attribute.
\<close>

fun method_names :: "task_class \<Rightarrow> string list" where
  "method_names SimpleTask =
     [''__init__'', ''update_status'', ''add_tag'', ''remove_tag'', ''is_overdue'', ''estimate_effort'',
      ''to_dict'', ''__str__'']"
| "method_names ProjectTask =
     [''__init__'', ''update_status'', ''add_tag'', ''remove_tag'', ''is_overdue'', ''estimate_effort'',
      ''to_dict'', ''__str__'', ''add_dependency'', ''remove_dependency'', ''set_estimate'']"
| "method_names RecurringTask =
     [''__init__'', ''update_status'', ''add_tag'', ''remove_tag'', ''is_overdue'', ''estimate_effort'',
      ''to_dict'', ''__str__'', ''complete_occurrence'']"

definition unassignable :: "string list" where
  "unassignable = [''__class__'', ''__dict__'', ''__weakref__'']"

definition hasattr :: "(string \<Rightarrow> bool) \<Rightarrow> task \<Rightarrow> string \<Rightarrow> bool" where
  "hasattr inherited task name =
     (attrs task name \<noteq> None \<or> name \<in> set (method_names (cls task)) \<or>
      name \<in> set unassignable \<or> inherited name)"

text \<open>\<open>setattr(task, key, value)\<close> with a value of the universe.\<close>

definition py_setattr :: "task \<Rightarrow> string \<Rightarrow> pyval \<Rightarrow> unit outcome \<times> task" where
  "py_setattr task name v =
     (if name = ''__class__'' \<or> name = ''__dict__'' then (Raised TypeError, task)
      else if name = ''__weakref__'' then (Raised AttributeError, task)
      else (Returned (), setattr task name v))"

text \<open>
  The loop of \<open>update_task\<close> over \<open>kwargs.items()\<close>; an exception leaves the assignments
  made before it.
\<close>

fun apply_kwargs :: "(string \<Rightarrow> bool) \<Rightarrow> task \<Rightarrow> dict \<Rightarrow> unit outcome \<times> task" where
  "apply_kwargs inherited task [] = (Returned (), task)"
| "apply_kwargs inherited task ((key, v) # kwargs) =
     (if hasattr inherited task key
      then (case py_setattr task key v of
              (Raised e, task') \<Rightarrow> (Raised e, task')
            | (Returned u, task') \<Rightarrow> apply_kwargs inherited task' kwargs)
      else apply_kwargs inherited task kwargs)"

text \<open>
  \<open>TaskManager.update_task\<close>. The keyword arguments are collected in \<open>kwargs\<close>; a
  keyword that is the name of a parameter of the method, \<open>self\<close> or \<open>task_id\<close>, is a
  second value for that parameter, and the call raises \<open>TypeError\<close> before the body runs.
  The task is changed in place, so the dictionary holds the changed task, also when an
  assignment raises; \<open>now1\<close> is the clock reading stored in \<open>updated_at\<close>, \<open>now2\<close> the one
  of the history record.
\<close>

definition update_task ::
  "(int \<Rightarrow> string) \<Rightarrow> (string \<Rightarrow> bool) \<Rightarrow> manager \<Rightarrow> pyval \<Rightarrow> dict \<Rightarrow> int \<Rightarrow> int \<Rightarrow> bool outcome \<times> manager" where
  "update_task isoformat inherited self tid kwargs now1 now2 =
     (if ''self'' \<in> fst ` set kwargs \<or> ''task_id'' \<in> fst ` set kwargs then (Raised TypeError, self)
      else if \<not> hashable tid then (Raised TypeError, self)
      else case tasks_get self tid of
             None \<Rightarrow> (Returned False, self)
           | Some task \<Rightarrow>
               (case apply_kwargs inherited task kwargs of
                  (Raised e, task1) \<Rightarrow> (Raised e, tasks_set self tid task1)
                | (Returned u, task1) \<Rightarrow>
                    (let task2 = setattr task1 ''updated_at'' (VDatetime now1)
                     in case record_history isoformat (tasks_set self tid task2) ''update'' task2 now2 of
                          (Raised e, self') \<Rightarrow> (Raised e, self')
                        | (Returned u, self') \<Rightarrow> (Returned True, self'))))"

text \<open>\<open>TaskManager.delete_task\<close>.\<close>

definition delete_task :: "(int \<Rightarrow> string) \<Rightarrow> manager \<Rightarrow> pyval \<Rightarrow> int \<Rightarrow> bool outcome \<times> manager" where
  "delete_task isoformat self tid now =
     (if \<not> hashable tid then (Raised TypeError, self)
      else case tasks_get self tid of
             None \<Rightarrow> (Returned False, self)
           | Some task \<Rightarrow>
               (case record_history isoformat (tasks_pop self tid) ''delete'' task now of
                  (Raised e, self') \<Rightarrow> (Raised e, self')
                | (Returned u, self') \<Rightarrow> (Returned True, self')))"

section \<open>Serialisation\<close>

text \<open>Sequencing of calls that may raise: the first exception ends the computation.\<close>

fun bind :: "'a outcome \<Rightarrow> ('a \<Rightarrow> 'b outcome) \<Rightarrow> 'b outcome" where
  "bind (Raised e) f = Raised e"
| "bind (Returned x) f = f x"

fun Priority_name :: "Priority \<Rightarrow> string" where
  "Priority_name LOW = ''LOW''"
| "Priority_name MEDIUM = ''MEDIUM''"
| "Priority_name HIGH = ''HIGH''"
| "Priority_name URGENT = ''URGENT''"

fun TaskStatus_name :: "TaskStatus \<Rightarrow> string" where
  "TaskStatus_name NOT_STARTED = ''NOT_STARTED''"
| "TaskStatus_name IN_PROGRESS = ''IN_PROGRESS''"
| "TaskStatus_name BLOCKED = ''BLOCKED''"
| "TaskStatus_name COMPLETED = ''COMPLETED''"
| "TaskStatus_name CANCELLED = ''CANCELLED''"

fun class_name :: "task_class \<Rightarrow> string" where
  "class_name SimpleTask = ''SimpleTask''"
| "class_name ProjectTask = ''ProjectTask''"
| "class_name RecurringTask = ''RecurringTask''"

text \<open>\<open>x.name\<close>: the members of both enumerations have it, nothing else has.\<close>

fun enum_name :: "pyval \<Rightarrow> pyval outcome" where
  "enum_name (VPriority p) = Returned (VStr (Priority_name p))"
| "enum_name (VStatus s) = Returned (VStr (TaskStatus_name s))"
| "enum_name v = Raised AttributeError"

text \<open>\<open>x.isoformat()\<close>, and \<open>x.isoformat() if x else None\<close>.\<close>

fun py_isoformat :: "(int \<Rightarrow> string) \<Rightarrow> pyval \<Rightarrow> pyval outcome" where
  "py_isoformat isoformat (VDatetime d) = Returned (VStr (isoformat d))"
| "py_isoformat isoformat v = Raised AttributeError"

definition isoformat_or_none :: "(int \<Rightarrow> string) \<Rightarrow> pyval \<Rightarrow> pyval outcome" where
  "isoformat_or_none isoformat v = (if truthy v then py_isoformat isoformat v else Returned VNone)"

text \<open>
  \<open>list(x)\<close>. The order in which a set is iterated is the interpreter's: the parameter
  \<open>order\<close>. A string is iterated by characters.
\<close>

fun py_list :: "(string fset \<Rightarrow> string list) \<Rightarrow> pyval \<Rightarrow> pyval outcome" where
  "py_list order (VStrSet S) = Returned (VStrList (order S))"
| "py_list order (VStrList xs) = Returned (VStrList xs)"
| "py_list order (VStr s) = Returned (VStrList (map (\<lambda>c. [c]) s))"
| "py_list order v = Raised TypeError"

text \<open>\<open>Task.to_dict\<close>: the values of the dictionary display are evaluated in order.\<close>

definition Task_to_dict :: "(int \<Rightarrow> string) \<Rightarrow> (string fset \<Rightarrow> string list) \<Rightarrow> task \<Rightarrow> dict outcome" where
  "Task_to_dict isoformat order self =
     bind (getattr self ''id'') (\<lambda>v_id.
     bind (getattr self ''title'') (\<lambda>v_title.
     bind (getattr self ''description'') (\<lambda>v_description.
     bind (bind (getattr self ''priority'') enum_name) (\<lambda>v_priority.
     bind (bind (getattr self ''status'') enum_name) (\<lambda>v_status.
     bind (bind (getattr self ''created_at'') (py_isoformat isoformat)) (\<lambda>v_created_at.
     bind (bind (getattr self ''updated_at'') (py_isoformat isoformat)) (\<lambda>v_updated_at.
     bind (bind (getattr self ''due_date'') (isoformat_or_none isoformat)) (\<lambda>v_due_date.
     bind (bind (getattr self ''completion_date'') (isoformat_or_none isoformat)) (\<lambda>v_completion_date.
     bind (bind (getattr self ''tags'') (py_list order)) (\<lambda>v_tags.
     Returned
       [(''id'', v_id),
        (''title'', v_title),
        (''description'', v_description),
        (''priority'', v_priority),
        (''status'', v_status),
        (''created_at'', v_created_at),
        (''updated_at'', v_updated_at),
        (''due_date'', v_due_date),
        (''completion_date'', v_completion_date),
        (''tags'', v_tags),
        (''type'', VStr (class_name (cls self)))]))))))))))"

text \<open>\<open>dict.update\<close> with the entries of another dictionary, in their order.\<close>

fun dict_update :: "dict \<Rightarrow> dict \<Rightarrow> dict" where
  "dict_update d [] = d"
| "dict_update d ((k, v) # kvs) = dict_update (AList.update k v d) kvs"

definition ProjectTask_to_dict :: "(int \<Rightarrow> string) \<Rightarrow> (string fset \<Rightarrow> string list) \<Rightarrow> task \<Rightarrow> dict outcome" where
  "ProjectTask_to_dict isoformat order self =
     bind (Task_to_dict isoformat order self) (\<lambda>data.
     bind (getattr self ''project'') (\<lambda>v_project.
     bind (bind (getattr self ''dependencies'') (py_list order)) (\<lambda>v_dependencies.
     bind (getattr self ''estimated_hours'') (\<lambda>v_estimated_hours.
     Returned (dict_update data
       [(''project'', v_project),
        (''dependencies'', v_dependencies),
        (''estimated_hours'', v_estimated_hours)])))))"

definition RecurringTask_to_dict :: "(int \<Rightarrow> string) \<Rightarrow> (string fset \<Rightarrow> string list) \<Rightarrow> task \<Rightarrow> dict outcome" where
  "RecurringTask_to_dict isoformat order self =
     bind (Task_to_dict isoformat order self) (\<lambda>data.
     bind (getattr self ''frequency'') (\<lambda>v_frequency.
     bind (getattr self ''recurrence_count'') (\<lambda>v_recurrence_count.
     bind (bind (getattr self ''last_completed'') (isoformat_or_none isoformat)) (\<lambda>v_last_completed.
     Returned (dict_update data
       [(''frequency'', v_frequency),
        (''recurrence_count'', v_recurrence_count),
        (''last_completed'', v_last_completed)])))))"

text \<open>
  The call \<open>task.to_dict()\<close>: the method of the task's class, unless an instance attribute
  of that name hides it; no value of the universe can be called.
\<close>

definition to_dict :: "(int \<Rightarrow> string) \<Rightarrow> (string fset \<Rightarrow> string list) \<Rightarrow> task \<Rightarrow> dict outcome" where
  "to_dict isoformat order self =
     (if attrs self ''to_dict'' \<noteq> None then Raised TypeError
      else case cls self of
             SimpleTask \<Rightarrow> Task_to_dict isoformat order self
           | ProjectTask \<Rightarrow> ProjectTask_to_dict isoformat order self
           | RecurringTask \<Rightarrow> RecurringTask_to_dict isoformat order self)"

text \<open>What \<open>json.dump\<close> can write: enumeration members, datetimes and sets are refused.\<close>

fun jsonable :: "pyval \<Rightarrow> bool" where
  "jsonable VNone = True"
| "jsonable (VInt i) = True"
| "jsonable (VFloat x) = True"
| "jsonable (VStr s) = True"
| "jsonable (VStrList xs) = True"
| "jsonable v = False"

definition jsonable_dict :: "dict \<Rightarrow> bool" where
  "jsonable_dict d = list_all (\<lambda>kv. jsonable (snd kv)) d"

text \<open>
  The stored file: a JSON object whose members are lists of objects. \<open>json.load\<close> gives back
  what \<open>json.dump\<close> wrote, so the file is identified with the data written.
\<close>

type_synonym json_file = "(string \<times> dict list) list"

fun to_dict_all :: "(int \<Rightarrow> string) \<Rightarrow> (string fset \<Rightarrow> string list) \<Rightarrow> task list \<Rightarrow> dict list outcome" where
  "to_dict_all isoformat order [] = Returned []"
| "to_dict_all isoformat order (task # rest) =
     bind (to_dict isoformat order task) (\<lambda>d.
     bind (to_dict_all isoformat order rest) (\<lambda>ds. Returned (d # ds)))"

text \<open>\<open>TaskManager.save_to_file\<close>: the content written when the call returns.\<close>

definition save_to_file :: "(int \<Rightarrow> string) \<Rightarrow> (string fset \<Rightarrow> string list) \<Rightarrow> manager \<Rightarrow> json_file outcome" where
  "save_to_file isoformat order self =
     bind (to_dict_all isoformat order (map snd (tasks self))) (\<lambda>ds.
       let data = [(''tasks'', ds), (''history'', task_history self)]
       in if list_all jsonable_dict ds \<and> list_all jsonable_dict (task_history self)
          then Returned data else Raised TypeError)"

section \<open>Loading\<close>

text \<open>\<open>d.pop(k)\<close>, which raises \<open>KeyError\<close> on a missing key, and \<open>d.pop(k, default)\<close>.\<close>

definition dict_pop :: "dict \<Rightarrow> string \<Rightarrow> (pyval \<times> dict) outcome" where
  "dict_pop d k = (case map_of d k of None \<Rightarrow> Raised KeyError | Some v \<Rightarrow> Returned (v, AList.delete k d))"

definition dict_pop_default :: "dict \<Rightarrow> string \<Rightarrow> pyval \<Rightarrow> pyval \<times> dict" where
  "dict_pop_default d k dflt = (case map_of d k of None \<Rightarrow> (dflt, d) | Some v \<Rightarrow> (v, AList.delete k d))"

text \<open>
  \<open>datetime.fromisoformat(x)\<close>: the library's parser is the parameter \<open>fromisoformat\<close>
  (\<open>None\<close> where it raises \<open>ValueError\<close>); an argument that is not a string is a
  \<open>TypeError\<close>.
\<close>

fun py_fromisoformat :: "(string \<Rightarrow> int option) \<Rightarrow> pyval \<Rightarrow> pyval outcome" where
  "py_fromisoformat fromisoformat (VStr s) =
     (case fromisoformat s of None \<Rightarrow> Raised ValueError | Some d \<Rightarrow> Returned (VDatetime d))"
| "py_fromisoformat fromisoformat v = Raised TypeError"

text \<open>The loop over the date fields of one stored record.\<close>

fun convert_dates :: "(string \<Rightarrow> int option) \<Rightarrow> dict \<Rightarrow> string list \<Rightarrow> dict outcome" where
  "convert_dates fromisoformat d [] = Returned d"
| "convert_dates fromisoformat d (date_field # others) =
     (case map_of d date_field of
        None \<Rightarrow> convert_dates fromisoformat d others
      | Some v \<Rightarrow>
          if truthy v
          then bind (py_fromisoformat fromisoformat v) (\<lambda>v'.
                 convert_dates fromisoformat (AList.update date_field v' d) others)
          else convert_dates fromisoformat d others)"

text \<open>
  \<open>Priority[x]\<close> and \<open>TaskStatus[x]\<close>: lookup of a member by name, \<open>KeyError\<close> on
  anything that is not the name of a member, \<open>TypeError\<close> on an unhashable value.
\<close>

fun Priority_lookup :: "pyval \<Rightarrow> pyval outcome" where
  "Priority_lookup (VStr s) =
     (if s = ''LOW'' then Returned (VPriority LOW)
      else if s = ''MEDIUM'' then Returned (VPriority MEDIUM)
      else if s = ''HIGH'' then Returned (VPriority HIGH)
      else if s = ''URGENT'' then Returned (VPriority URGENT)
      else Raised KeyError)"
| "Priority_lookup v = (if hashable v then Raised KeyError else Raised TypeError)"

fun TaskStatus_lookup :: "pyval \<Rightarrow> pyval outcome" where
  "TaskStatus_lookup (VStr s) =
     (if s = ''NOT_STARTED'' then Returned (VStatus NOT_STARTED)
      else if s = ''IN_PROGRESS'' then Returned (VStatus IN_PROGRESS)
      else if s = ''BLOCKED'' then Returned (VStatus BLOCKED)
      else if s = ''COMPLETED'' then Returned (VStatus COMPLETED)
      else if s = ''CANCELLED'' then Returned (VStatus CANCELLED)
      else Raised KeyError)"
| "TaskStatus_lookup v = (if hashable v then Raised KeyError else Raised TypeError)"

definition convert_enum :: "(pyval \<Rightarrow> pyval outcome) \<Rightarrow> dict \<Rightarrow> string \<Rightarrow> dict outcome" where
  "convert_enum lookup d k =
     (case map_of d k of
        None \<Rightarrow> Returned d
      | Some v \<Rightarrow> bind (lookup v) (\<lambda>v'. Returned (AList.update k v' d)))"

text \<open>\<open>set(x)\<close> on the values of the universe.\<close>

fun py_set :: "pyval \<Rightarrow> pyval outcome" where
  "py_set (VStrList xs) = Returned (VStrSet (fset_of_list xs))"
| "py_set (VStrSet S) = Returned (VStrSet S)"
| "py_set (VStr s) = Returned (VStrSet (fset_of_list (map (\<lambda>c. [c]) s)))"
| "py_set v = Raised TypeError"

text \<open>
  The branch of \<open>load_from_file\<close> that creates the object from the discriminator: the
  arguments of the constructor are popped from left to right. \<open>None\<close> is the \<open>continue\<close> of
  an unknown type.
\<close>

definition construct :: "string \<Rightarrow> int \<Rightarrow> pyval \<Rightarrow> dict \<Rightarrow> (task \<times> dict) option outcome" where
  "construct uuid now task_type d0 =
     (if task_type = VStr ''SimpleTask'' then
        bind (dict_pop d0 ''title'') (\<lambda>(v_title, d).
        bind (dict_pop d ''description'') (\<lambda>(v_description, d).
        bind (dict_pop d ''priority'') (\<lambda>(v_priority, d).
        let (v_due_date, d) = dict_pop_default d ''due_date'' VNone
        in Returned (Some (Task_init SimpleTask uuid now v_title v_description v_priority v_due_date, d)))))
      else if task_type = VStr ''ProjectTask'' then
        bind (dict_pop d0 ''title'') (\<lambda>(v_title, d).
        bind (dict_pop d ''project'') (\<lambda>(v_project, d).
        bind (dict_pop d ''description'') (\<lambda>(v_description, d).
        bind (dict_pop d ''priority'') (\<lambda>(v_priority, d).
        let (v_due_date, d) = dict_pop_default d ''due_date'' VNone;
            task = ProjectTask_init uuid now v_title v_project v_description v_priority v_due_date;
            (v_dependencies, d) = dict_pop_default d ''dependencies'' (VStrList [])
        in bind (py_set v_dependencies) (\<lambda>deps.
           let task = setattr task ''dependencies'' deps;
               (v_estimated_hours, d) = dict_pop_default d ''estimated_hours'' (VFloat 1.0);
               task = setattr task ''estimated_hours'' v_estimated_hours
           in Returned (Some (task, d)))))))
      else if task_type = VStr ''RecurringTask'' then
        bind (dict_pop d0 ''title'') (\<lambda>(v_title, d).
        bind (dict_pop d ''frequency'') (\<lambda>(v_frequency, d).
        bind (dict_pop d ''description'') (\<lambda>(v_description, d).
        bind (dict_pop d ''priority'') (\<lambda>(v_priority, d).
        let (v_due_date, d) = dict_pop_default d ''due_date'' VNone;
            task = RecurringTask_init uuid now v_title v_frequency v_description v_priority v_due_date;
            (v_recurrence_count, d) = dict_pop_default d ''recurrence_count'' (VInt 0);
            task = setattr task ''recurrence_count'' v_recurrence_count;
            (v_last_completed, d) = dict_pop_default d ''last_completed'' VNone;
            task = setattr task ''last_completed'' v_last_completed
        in Returned (Some (task, d))))))
      else Returned None)"

text \<open>The assignments under \<open># Set common properties\<close>.\<close>

definition set_common :: "task \<Rightarrow> dict \<Rightarrow> task outcome" where
  "set_common task0 d0 =
     bind (dict_pop d0 ''id'') (\<lambda>(v, d). let task = setattr task0 ''id'' v in
     bind (dict_pop d ''status'') (\<lambda>(v, d). let task = setattr task ''status'' v in
     bind (dict_pop d ''created_at'') (\<lambda>(v, d). let task = setattr task ''created_at'' v in
     bind (dict_pop d ''updated_at'') (\<lambda>(v, d). let task = setattr task ''updated_at'' v in
     let (v, d) = dict_pop_default d ''completion_date'' VNone;
         task = setattr task ''completion_date'' v;
         (v, d) = dict_pop_default d ''tags'' (VStrList [])
     in bind (py_set v) (\<lambda>tags. Returned (setattr task ''tags'' tags))))))"

text \<open>
  The body of the loop of \<open>load_from_file\<close> for one stored record, up to the registration
  of the task.
\<close>

definition date_fields :: "string list" where
  "date_fields = [''created_at'', ''updated_at'', ''due_date'', ''completion_date'', ''last_completed'']"

definition load_task :: "(string \<Rightarrow> int option) \<Rightarrow> string \<Rightarrow> int \<Rightarrow> dict \<Rightarrow> task option outcome" where
  "load_task fromisoformat uuid now task_data =
     bind (dict_pop task_data ''type'') (\<lambda>(task_type, d).
     bind (convert_dates fromisoformat d date_fields) (\<lambda>d.
     bind (convert_enum Priority_lookup d ''priority'') (\<lambda>d.
     bind (convert_enum TaskStatus_lookup d ''status'') (\<lambda>d.
     bind (construct uuid now task_type d) (\<lambda>r.
       case r of
         None \<Rightarrow> Returned None
       | Some (task, d) \<Rightarrow> bind (set_common task d) (\<lambda>task. Returned (Some task)))))))"

text \<open>
  The loop. The \<open>n\<close>-th stored record takes the identifier \<open>uuid4 n\<close> and the clock reading
  \<open>clock n\<close> for its constructor. An exception leaves the tasks registered before it.
\<close>

fun load_tasks ::
  "(string \<Rightarrow> int option) \<Rightarrow> (nat \<Rightarrow> string) \<Rightarrow> (nat \<Rightarrow> int) \<Rightarrow> manager \<Rightarrow> nat \<Rightarrow> dict list \<Rightarrow> bool outcome \<times> manager" where
  "load_tasks fromisoformat uuid4 clock self n [] = (Returned True, self)"
| "load_tasks fromisoformat uuid4 clock self n (task_data # rest) =
     (case load_task fromisoformat (uuid4 n) (clock n) task_data of
        Raised e \<Rightarrow> (Raised e, self)
      | Returned None \<Rightarrow> load_tasks fromisoformat uuid4 clock self (Suc n) rest
      | Returned (Some task) \<Rightarrow>
          (case getattr task ''id'' of
             Raised e \<Rightarrow> (Raised e, self)
           | Returned i \<Rightarrow>
               if \<not> hashable i then (Raised TypeError, self)
               else load_tasks fromisoformat uuid4 clock (tasks_set self i task) (Suc n) rest))"

text \<open>
  \<open>TaskManager.load_from_file\<close>. The file is \<open>None\<close> when the path does not exist.
\<close>

definition load_from_file ::
  "(string \<Rightarrow> int option) \<Rightarrow> (nat \<Rightarrow> string) \<Rightarrow> (nat \<Rightarrow> int) \<Rightarrow> manager \<Rightarrow> json_file option \<Rightarrow> bool outcome \<times> manager" where
  "load_from_file fromisoformat uuid4 clock self file =
     (case file of
        None \<Rightarrow> (Returned False, self)
      | Some data \<Rightarrow>
          (let self1 = self\<lparr>tasks := [],
                 task_history := (case map_of data ''history'' of None \<Rightarrow> [] | Some h \<Rightarrow> h)\<rparr>
           in load_tasks fromisoformat uuid4 clock self1 0
                (case map_of data ''tasks'' of None \<Rightarrow> [] | Some ts \<Rightarrow> ts)))"

section \<open>The data model\<close>

text \<open>
  The tasks the constructors and the methods of the classes produce: every attribute is
  present and holds a value of the type the constructor gives it. \<open>None\<close> stands for an
  absent description or date.
\<close>

fun opt_str :: "string option \<Rightarrow> pyval" where
  "opt_str None = VNone"
| "opt_str (Some s) = VStr s"

fun opt_datetime :: "int option \<Rightarrow> pyval" where
  "opt_datetime None = VNone"
| "opt_datetime (Some d) = VDatetime d"

definition base_attrs ::
  "string \<Rightarrow> string \<Rightarrow> string option \<Rightarrow> Priority \<Rightarrow> TaskStatus \<Rightarrow> int \<Rightarrow> int \<Rightarrow> int option \<Rightarrow> int option \<Rightarrow>
   string fset \<Rightarrow> string \<Rightarrow> pyval option" where
  "base_attrs i title description priority status created updated due completion tags =
     [''id'' \<mapsto> VStr i,
      ''title'' \<mapsto> VStr title,
      ''description'' \<mapsto> opt_str description,
      ''priority'' \<mapsto> VPriority priority,
      ''status'' \<mapsto> VStatus status,
      ''created_at'' \<mapsto> VDatetime created,
      ''updated_at'' \<mapsto> VDatetime updated,
      ''due_date'' \<mapsto> opt_datetime due,
      ''completion_date'' \<mapsto> opt_datetime completion,
      ''tags'' \<mapsto> VStrSet tags]"

inductive wf_task :: "task \<Rightarrow> bool" where
  wf_SimpleTask:
    "wf_task \<lparr>cls = SimpleTask,
       attrs = base_attrs i title description priority status created updated due completion tags\<rparr>"
| wf_ProjectTask:
    "wf_task \<lparr>cls = ProjectTask,
       attrs = (base_attrs i title description priority status created updated due completion tags)
         (''project'' \<mapsto> VStr project,
          ''dependencies'' \<mapsto> VStrSet dependencies,
          ''estimated_hours'' \<mapsto> VFloat estimated_hours)\<rparr>"
| wf_RecurringTask:
    "wf_task \<lparr>cls = RecurringTask,
       attrs = (base_attrs i title description priority status created updated due completion tags)
         (''frequency'' \<mapsto> VStr frequency,
          ''recurrence_count'' \<mapsto> VInt recurrence_count,
          ''last_completed'' \<mapsto> opt_datetime last_completed)\<rparr>"

text \<open>
  A manager state of the data model: every task is well formed and registered under its own
  identifier, no identifier is registered twice, and the history holds what \<open>json.dump\<close>
  can write.
\<close>

definition wf_manager :: "manager \<Rightarrow> bool" where
  "wf_manager self =
     (list_all (\<lambda>(k, task). wf_task task \<and> attrs task ''id'' = Some k) (tasks self) \<and>
      distinct (map fst (tasks self)) \<and>
      list_all jsonable_dict (task_history self))"

text \<open>The tag set of a task whose \<open>tags\<close> attribute holds a set.\<close>

definition has_tag_set :: "task \<Rightarrow> bool" where
  "has_tag_set task = (case attrs task ''tags'' of Some (VStrSet S) \<Rightarrow> True | _ \<Rightarrow> False)"

definition tag_set :: "task \<Rightarrow> string fset" where
  "tag_set task = (case attrs task ''tags'' of Some (VStrSet S) \<Rightarrow> S | _ \<Rightarrow> {||})"

section \<open>Sample objects\<close>

text \<open>
  Concrete tasks and managers on which the theorems are instantiated, with instances of
  the parameters: the containment test and the inherited names of Python 3.11,
  \<open>str.lower\<close> as it is on ASCII strings, and, for \<open>datetime.isoformat\<close> and
  \<open>datetime.fromisoformat\<close>, a stand-in pair that writes a datetime as a sign and a tally
  of its microseconds and reads it back. Sets are listed in sorted order there.
  \<open>last_day_chore\<close> is due on 9999-12-31, the last day of the calendar, and
  \<open>late_task\<close> was created at the clock reading 100.
\<close>

definition ascii_lower :: "string \<Rightarrow> string" where
  "ascii_lower s =
     map (\<lambda>c. let n = (of_char c :: nat) in if 65 \<le> n \<and> n \<le> 90 then char_of (n + 32) else c) s"

definition python_3_11_in :: "pyval \<Rightarrow> bool outcome" where
  "python_3_11_in v = Raised TypeError"

definition python_3_11_inherited :: "string \<Rightarrow> bool" where
  "python_3_11_inherited name =
     (name \<in> set
        [''__abstractmethods__'', ''__delattr__'', ''__dir__'', ''__doc__'', ''__eq__'', ''__format__'',
         ''__ge__'', ''__getattribute__'', ''__getstate__'', ''__gt__'', ''__hash__'',
         ''__init_subclass__'', ''__le__'', ''__lt__'', ''__module__'', ''__ne__'', ''__new__'',
         ''__reduce__'', ''__reduce_ex__'', ''__repr__'', ''__setattr__'', ''__sizeof__'', ''__slots__'',
         ''__subclasshook__'', ''_abc_impl''])"

definition last_day_chore :: task where
  "last_day_chore =
     RecurringTask_init ''r9'' 10 (VStr ''back up'') (VStr ''daily'') VNone (VPriority LOW)
       (VDatetime (3652058 * 86400000000))"

definition late_task :: task where
  "late_task = Task_init SimpleTask ''a2'' 100 (VStr ''file taxes'') VNone (VPriority HIGH) VNone"

definition tally_isoformat :: "int \<Rightarrow> string" where
  "tally_isoformat d = (if d < 0 then CHR ''-'' else CHR ''+'') # replicate (nat \<bar>d\<bar>) CHR ''I''"

definition tally_fromisoformat :: "string \<Rightarrow> int option" where
  "tally_fromisoformat s =
     (case s of [] \<Rightarrow> None
      | c # r \<Rightarrow> Some (if c = CHR ''-'' then - int (length r) else int (length r)))"

definition pay_rent :: task where
  "pay_rent = Task_init SimpleTask ''a1'' 10 (VStr ''pay rent'') VNone (VPriority MEDIUM) VNone"

definition audit_report :: task where
  "audit_report = ProjectTask_init ''p1'' 10 (VStr ''report'') (VStr ''audit'') VNone (VPriority HIGH) VNone"

definition weekly_chore :: task where
  "weekly_chore =
     RecurringTask_init ''r1'' 10 (VStr ''water plants'') (VStr ''weekly'') VNone (VPriority LOW) (VDatetime 1000)"

definition tagged :: "string \<Rightarrow> string fset \<Rightarrow> task" where
  "tagged i S = setattr (Task_init SimpleTask i 10 (VStr ''t'') VNone (VPriority MEDIUM) VNone) ''tags'' (VStrSet S)"

definition desk :: manager where
  "desk = \<lparr>tasks = [(VStr ''a1'', pay_rent)], task_history = []\<rparr>"

definition office :: manager where
  "office =
     \<lparr>tasks = [(VStr ''a1'', pay_rent), (VStr ''p1'', audit_report), (VStr ''r1'', weekly_chore)],
      task_history =
        [[(''action'', VStr ''add''), (''task_id'', VStr ''a1''), (''task_title'', VStr ''pay rent''),
          (''timestamp'', VStr (tally_isoformat 11))]]\<rparr>"

section \<open>Properties\<close>

subsection \<open>Status updates\<close>

lemma pay_rent_attrs:
  "attrs pay_rent ''id'' = Some (VStr ''a1'')"
  "attrs pay_rent ''title'' = Some (VStr ''pay rent'')"
  "attrs pay_rent ''status'' = Some (VStatus NOT_STARTED)"
  "attrs pay_rent ''tags'' = Some (VStrSet {||})"
  "attrs pay_rent ''created_at'' = Some (VDatetime 10)"
  "attrs pay_rent ''colour'' = None"
  "cls pay_rent = SimpleTask"
  by (simp_all add: pay_rent_def Task_init_def)

text \<open>
  Claim C3, as the code has it. On each of the five members of \<open>TaskStatus\<close>,
  \<open>update_status\<close> stores the status and the clock reading in \<open>updated_at\<close>, and exactly
  for \<open>COMPLETED\<close> it also stores that reading in \<open>completion_date\<close>, which is then set;
  \<open>created_at\<close> is not looked at. Whenever the call raises, the task is unchanged and the
  value is not a member: it raises \<open>ValueError\<close> on a member of the other enumeration and
  on a value the containment test finds outside the class, and it raises what the
  containment test raises (a \<open>TypeError\<close> from Python 3.8 to 3.11) on a value that is not
  an enumeration member. A value the containment test accepts is stored as it is.
\<close>

theorem update_status_spec:
  "(\<forall>s. v = VStatus s \<and> s \<noteq> COMPLETED \<longrightarrow>
      update_status plain_in task v now =
        (Returned (), task\<lparr>attrs := (attrs task)(''status'' \<mapsto> v, ''updated_at'' \<mapsto> VDatetime now)\<rparr>)) \<and>
   (v = VStatus COMPLETED \<longrightarrow>
      update_status plain_in task v now =
        (Returned (), task\<lparr>attrs := (attrs task)(''status'' \<mapsto> v, ''updated_at'' \<mapsto> VDatetime now,
           ''completion_date'' \<mapsto> VDatetime now)\<rparr>)) \<and>
   (\<forall>p. v = VPriority p \<longrightarrow> update_status plain_in task v now = (Raised ValueError, task)) \<and>
   ((\<forall>s. v \<noteq> VStatus s) \<and> (\<forall>p. v \<noteq> VPriority p) \<longrightarrow>
      (\<forall>e. plain_in v = Raised e \<longrightarrow> update_status plain_in task v now = (Raised e, task)) \<and>
      (plain_in v = Returned False \<longrightarrow> update_status plain_in task v now = (Raised ValueError, task)) \<and>
      (plain_in v = Returned True \<longrightarrow>
         update_status plain_in task v now =
           (Returned (), task\<lparr>attrs := (attrs task)(''status'' \<mapsto> v, ''updated_at'' \<mapsto> VDatetime now)\<rparr>))) \<and>
   (\<forall>e. fst (update_status plain_in task v now) = Raised e \<longrightarrow>
      snd (update_status plain_in task v now) = task \<and> (\<forall>s. v \<noteq> VStatus s)) \<and>
   (v = VStatus COMPLETED \<longrightarrow>
      attrs (snd (update_status plain_in task v now)) ''completion_date'' = Some (VDatetime now) \<and>
      attrs (snd (update_status plain_in task v now)) ''created_at'' = attrs task ''created_at'')"
proof -
  have member: "update_status plain_in task (VStatus s) now =
      (Returned (),
       if s = COMPLETED
       then task\<lparr>attrs := (attrs task)(''status'' \<mapsto> VStatus s, ''updated_at'' \<mapsto> VDatetime now,
           ''completion_date'' \<mapsto> VDatetime now)\<rparr>
       else task\<lparr>attrs := (attrs task)(''status'' \<mapsto> VStatus s, ''updated_at'' \<mapsto> VDatetime now)\<rparr>)" for s
    by (simp add: update_status_def setattr_def getattr_def)
  have other: "update_status plain_in task (VPriority p) now = (Raised ValueError, task)" for p
    by (simp add: update_status_def)
  have plain: "update_status plain_in task v now =
      (case plain_in v of
         Raised e \<Rightarrow> (Raised e, task)
       | Returned False \<Rightarrow> (Raised ValueError, task)
       | Returned True \<Rightarrow>
           (Returned (), task\<lparr>attrs := (attrs task)(''status'' \<mapsto> v, ''updated_at'' \<mapsto> VDatetime now)\<rparr>))"
    if "\<forall>s. v \<noteq> VStatus s" and "\<forall>p. v \<noteq> VPriority p"
    using that
    by (cases v) (auto simp: update_status_def setattr_def split: outcome.splits bool.splits)
  show ?thesis
  proof (cases v)
    case (VStatus s)
    then show ?thesis by (simp add: member)
  next
    case (VPriority p)
    then show ?thesis by (simp add: other)
  qed (use plain in \<open>auto split: outcome.splits bool.splits\<close>)
qed

theorem update_status_spec_witness:
  "update_status python_3_11_in pay_rent (VStatus COMPLETED) 20 =
     (Returned (), pay_rent\<lparr>attrs := (attrs pay_rent)(''status'' \<mapsto> VStatus COMPLETED,
        ''updated_at'' \<mapsto> VDatetime 20, ''completion_date'' \<mapsto> VDatetime 20)\<rparr>) \<and>
   update_status python_3_11_in pay_rent (VStatus BLOCKED) 20 =
     (Returned (), pay_rent\<lparr>attrs := (attrs pay_rent)(''status'' \<mapsto> VStatus BLOCKED,
        ''updated_at'' \<mapsto> VDatetime 20)\<rparr>) \<and>
   update_status python_3_11_in pay_rent (VPriority LOW) 20 = (Raised ValueError, pay_rent) \<and>
   python_3_11_in (VStr ''Done'') = Raised TypeError \<and>
   update_status python_3_11_in pay_rent (VStr ''Done'') 20 = (Raised TypeError, pay_rent) \<and>
   attrs (snd (update_status python_3_11_in pay_rent (VStatus COMPLETED) 20)) ''completion_date''
     = Some (VDatetime 20) \<and>
   attrs (snd (update_status python_3_11_in pay_rent (VStatus COMPLETED) 20)) ''created_at''
     = Some (VDatetime 10)"
  using update_status_spec [of "VStatus COMPLETED" python_3_11_in pay_rent 20]
    update_status_spec [of "VStatus BLOCKED" python_3_11_in pay_rent 20]
    update_status_spec [of "VPriority LOW" python_3_11_in pay_rent 20]
    update_status_spec [of "VStr ''Done''" python_3_11_in pay_rent 20]
  by (simp add: python_3_11_in_def pay_rent_attrs)

text \<open>
  Claim C3 as stated has the completion date at or after \<open>created_at\<close>. The code stores
  the clock reading whatever \<open>created_at\<close> holds: a task created at the reading 100 and
  completed at the reading 50 (the clock of \<open>datetime.now()\<close> is local time and can go
  back) has a completion date before its creation.
\<close>

theorem update_status_before_created_at:
  "attrs late_task ''created_at'' = Some (VDatetime 100) \<and>
   fst (update_status python_3_11_in late_task (VStatus COMPLETED) 50) = Returned () \<and>
   attrs (snd (update_status python_3_11_in late_task (VStatus COMPLETED) 50)) ''completion_date''
     = Some (VDatetime 50) \<and>
   attrs (snd (update_status python_3_11_in late_task (VStatus COMPLETED) 50)) ''created_at''
     = Some (VDatetime 100) \<and>
   \<not> (100 :: int) \<le> 50"
  by (simp add: late_task_def Task_init_def update_status_def setattr_def getattr_def)

subsection \<open>Overdue tasks\<close>

text \<open>
  Claim C7. For a task whose due date is absent or a datetime, \<open>is_overdue\<close> returns true
  exactly when the due date is set, the status is not \<open>COMPLETED\<close> and the clock reading is
  strictly after the due date: it is false without a due date and false for a completed
  task, whatever the due date. The method is a query: it returns a result and assigns no
  attribute.
\<close>

theorem is_overdue_spec:
  assumes "attrs task ''due_date'' = Some (opt_datetime due)"
    and "attrs task ''status'' = Some st"
  shows "is_overdue task now = Returned (\<exists>d. due = Some d \<and> st \<noteq> VStatus COMPLETED \<and> d < now) \<and>
         (due = None \<longrightarrow> is_overdue task now = Returned False) \<and>
         (st = VStatus COMPLETED \<longrightarrow> is_overdue task now = Returned False)"
  using assms by (cases due) (auto simp: is_overdue_def getattr_def)

theorem is_overdue_spec_witness:
  "is_overdue (Task_init SimpleTask ''a1'' 10 (VStr ''pay rent'') VNone (VPriority MEDIUM) (VDatetime 15)) 20
     = Returned True \<and>
   is_overdue (Task_init SimpleTask ''a1'' 10 (VStr ''pay rent'') VNone (VPriority MEDIUM) VNone) 20
     = Returned False \<and>
   is_overdue (snd (update_status python_3_11_in
       (Task_init SimpleTask ''a1'' 10 (VStr ''pay rent'') VNone (VPriority MEDIUM) (VDatetime 15))
       (VStatus COMPLETED) 12)) 20
     = Returned False"
  using is_overdue_spec [of "Task_init SimpleTask ''a1'' 10 (VStr ''pay rent'') VNone (VPriority MEDIUM) (VDatetime 15)"
      "Some 15" "VStatus NOT_STARTED" 20]
    is_overdue_spec [of "Task_init SimpleTask ''a1'' 10 (VStr ''pay rent'') VNone (VPriority MEDIUM) VNone"
      None "VStatus NOT_STARTED" 20]
    is_overdue_spec [of "snd (update_status python_3_11_in
       (Task_init SimpleTask ''a1'' 10 (VStr ''pay rent'') VNone (VPriority MEDIUM) (VDatetime 15))
       (VStatus COMPLETED) 12)" "Some 15" "VStatus COMPLETED" 20]
  by (simp add: Task_init_def update_status_def setattr_def getattr_def)

subsection \<open>Recurring tasks\<close>

lemma frequency_offset_cases:
  "frequency_offset f =
     (if f = VStr ''daily'' then Some (days 1)
      else if f = VStr ''weekly'' then Some (days 7)
      else if f = VStr ''monthly'' then Some (days 30)
      else if f = VStr ''yearly'' then Some (days 365)
      else None)"
  by (simp add: frequency_offset_def)

lemma complete_occurrence_steps:
  assumes "attrs task ''recurrence_count'' = Some (VInt n)"
    and "attrs task ''due_date'' = Some (VDatetime D)"
    and "attrs task ''frequency'' = Some f"
  shows "complete_occurrence float_succ task now1 now2 =
     (case frequency_offset f of
        None \<Rightarrow>
          (Returned (),
           task\<lparr>attrs := (attrs task)
             (''last_completed'' \<mapsto> VDatetime now1,
              ''recurrence_count'' \<mapsto> VInt (n + 1),
              ''status'' \<mapsto> VStatus NOT_STARTED,
              ''updated_at'' \<mapsto> VDatetime now2)\<rparr>)
      | Some delta \<Rightarrow>
          if valid_datetime (D + delta)
          then (Returned (),
                task\<lparr>attrs := (attrs task)
                  (''last_completed'' \<mapsto> VDatetime now1,
                   ''recurrence_count'' \<mapsto> VInt (n + 1),
                   ''status'' \<mapsto> VStatus NOT_STARTED,
                   ''due_date'' \<mapsto> VDatetime (D + delta),
                   ''updated_at'' \<mapsto> VDatetime now2)\<rparr>)
          else (Raised OverflowError,
                task\<lparr>attrs := (attrs task)
                  (''last_completed'' \<mapsto> VDatetime now1,
                   ''recurrence_count'' \<mapsto> VInt (n + 1),
                   ''status'' \<mapsto> VStatus NOT_STARTED)\<rparr>))"
proof -
  let ?t3 = "setattr (setattr (setattr task ''last_completed'' (VDatetime now1))
                ''recurrence_count'' (VInt (n + 1))) ''status'' (VStatus NOT_STARTED)"
  have due: "getattr ?t3 ''due_date'' = Returned (VDatetime D)"
    and freq: "getattr ?t3 ''frequency'' = Returned f"
    using assms by (simp_all add: getattr_def setattr_def)
  have adv: "advance_due_date ?t3 =
      (case frequency_offset f of
         None \<Rightarrow> (Returned (), ?t3)
       | Some delta \<Rightarrow>
           if valid_datetime (D + delta) then (Returned (), setattr ?t3 ''due_date'' (VDatetime (D + delta)))
           else (Raised OverflowError, ?t3))"
    by (cases "frequency_offset f") (simp_all add: advance_due_date_def due freq)
  have cnt: "getattr (setattr task ''last_completed'' (VDatetime now1)) ''recurrence_count'' = Returned (VInt n)"
    using assms by (simp add: getattr_def setattr_def)
  show ?thesis
    unfolding complete_occurrence_def Let_def cnt
    apply (simp add: adv)
    apply (cases "frequency_offset f"; simp add: setattr_def)
    done
qed

text \<open>
  Claim C2, as the code has it. For a recurring task with an integer recurrence count and a
  due date \<open>D\<close>, \<open>complete_occurrence\<close> stores the first clock reading in
  \<open>last_completed\<close>, adds exactly one to \<open>recurrence_count\<close> and resets the status to
  \<open>NOT_STARTED\<close>. For the frequencies daily, weekly, monthly and yearly it then moves the
  due date by 1, 7, 30 or 365 days when the new date is a datetime of the library, and
  stores the second clock reading in \<open>updated_at\<close>; when the new date is past
  \<open>datetime.max\<close> it raises \<open>OverflowError\<close> with the first three assignments made and
  neither the due date nor \<open>updated_at\<close> changed. For every other frequency the due date
  stays \<open>D\<close> and \<open>updated_at\<close> is set.
\<close>

theorem complete_occurrence_spec:
  assumes "attrs task ''recurrence_count'' = Some (VInt n)"
    and "attrs task ''due_date'' = Some (VDatetime D)"
    and "attrs task ''frequency'' = Some f"
  shows
    "(f = VStr ''daily'' \<and> valid_datetime (D + days 1) \<longrightarrow>
        complete_occurrence float_succ task now1 now2 =
          (Returned (),
           task\<lparr>attrs := (attrs task)
             (''last_completed'' \<mapsto> VDatetime now1, ''recurrence_count'' \<mapsto> VInt (n + 1),
              ''status'' \<mapsto> VStatus NOT_STARTED, ''due_date'' \<mapsto> VDatetime (D + days 1),
              ''updated_at'' \<mapsto> VDatetime now2)\<rparr>)) \<and>
     (f = VStr ''weekly'' \<and> valid_datetime (D + days 7) \<longrightarrow>
        complete_occurrence float_succ task now1 now2 =
          (Returned (),
           task\<lparr>attrs := (attrs task)
             (''last_completed'' \<mapsto> VDatetime now1, ''recurrence_count'' \<mapsto> VInt (n + 1),
              ''status'' \<mapsto> VStatus NOT_STARTED, ''due_date'' \<mapsto> VDatetime (D + days 7),
              ''updated_at'' \<mapsto> VDatetime now2)\<rparr>)) \<and>
     (f = VStr ''monthly'' \<and> valid_datetime (D + days 30) \<longrightarrow>
        complete_occurrence float_succ task now1 now2 =
          (Returned (),
           task\<lparr>attrs := (attrs task)
             (''last_completed'' \<mapsto> VDatetime now1, ''recurrence_count'' \<mapsto> VInt (n + 1),
              ''status'' \<mapsto> VStatus NOT_STARTED, ''due_date'' \<mapsto> VDatetime (D + days 30),
              ''updated_at'' \<mapsto> VDatetime now2)\<rparr>)) \<and>
     (f = VStr ''yearly'' \<and> valid_datetime (D + days 365) \<longrightarrow>
        complete_occurrence float_succ task now1 now2 =
          (Returned (),
           task\<lparr>attrs := (attrs task)
             (''last_completed'' \<mapsto> VDatetime now1, ''recurrence_count'' \<mapsto> VInt (n + 1),
              ''status'' \<mapsto> VStatus NOT_STARTED, ''due_date'' \<mapsto> VDatetime (D + days 365),
              ''updated_at'' \<mapsto> VDatetime now2)\<rparr>)) \<and>
     (f \<noteq> VStr ''daily'' \<and> f \<noteq> VStr ''weekly'' \<and> f \<noteq> VStr ''monthly'' \<and> f \<noteq> VStr ''yearly'' \<longrightarrow>
        complete_occurrence float_succ task now1 now2 =
          (Returned (),
           task\<lparr>attrs := (attrs task)
             (''last_completed'' \<mapsto> VDatetime now1, ''recurrence_count'' \<mapsto> VInt (n + 1),
              ''status'' \<mapsto> VStatus NOT_STARTED, ''updated_at'' \<mapsto> VDatetime now2)\<rparr>) \<and>
        attrs (snd (complete_occurrence float_succ task now1 now2)) ''due_date'' = Some (VDatetime D)) \<and>
     (\<forall>k. (f = VStr ''daily'' \<and> k = 1 \<or> f = VStr ''weekly'' \<and> k = 7 \<or>
           f = VStr ''monthly'' \<and> k = 30 \<or> f = VStr ''yearly'' \<and> k = 365) \<and>
          \<not> valid_datetime (D + days k) \<longrightarrow>
        complete_occurrence float_succ task now1 now2 =
          (Raised OverflowError,
           task\<lparr>attrs := (attrs task)
             (''last_completed'' \<mapsto> VDatetime now1, ''recurrence_count'' \<mapsto> VInt (n + 1),
              ''status'' \<mapsto> VStatus NOT_STARTED)\<rparr>)) \<and>
     days 1 = 86400000000"
  using assms(2)
  by (auto simp: complete_occurrence_steps [OF assms] frequency_offset_cases days_def)

theorem complete_occurrence_spec_witness:
  "attrs weekly_chore ''recurrence_count'' = Some (VInt 0) \<and>
   attrs weekly_chore ''due_date'' = Some (VDatetime 1000) \<and>
   attrs weekly_chore ''frequency'' = Some (VStr ''weekly'') \<and>
   valid_datetime (1000 + days 7) \<and>
   fst (complete_occurrence ((+) 1) weekly_chore 20 21) = Returned () \<and>
   attrs (snd (complete_occurrence ((+) 1) weekly_chore 20 21)) ''due_date'' =
     Some (VDatetime (1000 + 7 * 86400000000)) \<and>
   attrs (snd (complete_occurrence ((+) 1) weekly_chore 20 21)) ''recurrence_count'' = Some (VInt 1) \<and>
   attrs (snd (complete_occurrence ((+) 1) weekly_chore 20 21)) ''status'' = Some (VStatus NOT_STARTED) \<and>
   attrs (snd (complete_occurrence ((+) 1) weekly_chore 20 21)) ''last_completed'' = Some (VDatetime 20) \<and>
   attrs (snd (complete_occurrence ((+) 1) weekly_chore 20 21)) ''updated_at'' = Some (VDatetime 21)"
proof -
  have a: "attrs weekly_chore ''recurrence_count'' = Some (VInt 0)"
    and b: "attrs weekly_chore ''due_date'' = Some (VDatetime 1000)"
    and c: "attrs weekly_chore ''frequency'' = Some (VStr ''weekly'')"
    by (simp_all add: weekly_chore_def RecurringTask_init_def Task_init_def setattr_def)
  have v: "valid_datetime (1000 + days 7)"
    by (simp add: valid_datetime_def datetime_max_def days_def)
  from complete_occurrence_spec [OF a b c, of "(+) 1" 20 21] v a b c show ?thesis
    by (simp add: days_def)
qed

text \<open>
  Claim C2 as stated has the call succeed for every due date. A daily task due on
  9999-12-31 cannot move to the next day: the call raises \<open>OverflowError\<close> after counting
  the occurrence, and \<open>updated_at\<close> is not bumped.
\<close>

theorem complete_occurrence_overflow:
  "attrs last_day_chore ''recurrence_count'' = Some (VInt 0) \<and>
   attrs last_day_chore ''due_date'' = Some (VDatetime (3652058 * 86400000000)) \<and>
   attrs last_day_chore ''frequency'' = Some (VStr ''daily'') \<and>
   attrs last_day_chore ''updated_at'' = Some (VDatetime 10) \<and>
   valid_datetime (3652058 * 86400000000) \<and>
   fst (complete_occurrence ((+) 1) last_day_chore 20 21) = Raised OverflowError \<and>
   attrs (snd (complete_occurrence ((+) 1) last_day_chore 20 21)) ''recurrence_count'' = Some (VInt 1) \<and>
   attrs (snd (complete_occurrence ((+) 1) last_day_chore 20 21)) ''due_date'' =
     Some (VDatetime (3652058 * 86400000000)) \<and>
   attrs (snd (complete_occurrence ((+) 1) last_day_chore 20 21)) ''updated_at'' = Some (VDatetime 10)"
  by (simp add: last_day_chore_def RecurringTask_init_def Task_init_def setattr_def getattr_def
        complete_occurrence_def advance_due_date_def frequency_offset_def days_def
        valid_datetime_def datetime_max_def)

subsection \<open>Estimates\<close>

lemma bit_length_le: "n < 2 ^ k \<Longrightarrow> bit_length n \<le> k"
proof (induction n arbitrary: k rule: bit_length.induct)
  case (1 n)
  show ?case
  proof (cases "n = 0")
    case True
    then show ?thesis by (simp add: bit_length.simps)
  next
    case False
    with "1.prems" obtain k' where k: "k = Suc k'" by (cases k) auto
    with "1.prems" have "n div 2 < 2 ^ k'" by auto
    from "1.IH" [OF False this] k False show ?thesis
      by (subst bit_length.simps) simp
  qed
qed

lemma bit_length_gt: "2 ^ k \<le> n \<Longrightarrow> k < bit_length n"
proof (induction n arbitrary: k rule: bit_length.induct)
  case (1 n)
  have "0 < (2::nat) ^ k" by simp
  with "1.prems" have n0: "n \<noteq> 0" by linarith
  show ?case
  proof (cases k)
    case 0
    with n0 show ?thesis by (subst bit_length.simps) simp
  next
    case (Suc k')
    with "1.prems" have "2 ^ k' \<le> n div 2" by auto
    from "1.IH" [OF n0 this] Suc n0 show ?thesis
      by (subst bit_length.simps) simp
  qed
qed

lemma bit_length_eq: "2 ^ k \<le> n \<Longrightarrow> n < 2 ^ Suc k \<Longrightarrow> bit_length n = Suc k"
  using bit_length_le [of n "Suc k"] bit_length_gt [of k n] by simp

lemma float_of_int_exact:
  assumes "\<bar>i\<bar> < 2 ^ 53"
  shows "float_of_int i = Some (of_int i)"
proof -
  from assms have "nat \<bar>i\<bar> < 2 ^ 53"
    by (simp add: nat_less_iff)
  then have "bit_length (nat \<bar>i\<bar>) \<le> 53" by (rule bit_length_le)
  then show ?thesis by (simp add: float_of_int_def Let_def)
qed

lemma float_of_int_overflow:
  assumes "2 ^ 1024 \<le> \<bar>i\<bar>"
  shows "float_of_int i = None"
proof -
  define a where "a = nat \<bar>i\<bar>"
  define n where "n = bit_length a"
  define sh where "sh = n - 53"
  from assms have a: "2 ^ 1024 \<le> a"
    unfolding a_def by (simp add: le_nat_iff)
  then have n: "1024 < n" unfolding n_def by (rule bit_length_gt)
  have "\<not> a < 2 ^ (n - 1)"
    using bit_length_le [of a "n - 1"] n by (auto simp: n_def)
  then have lo: "2 ^ (n - 1) \<le> a" by simp
  have "n - 1 = 52 + sh" using n by (simp add: sh_def)
  then have split: "(2::nat) ^ (n - 1) = 2 ^ 52 * 2 ^ sh"
    by (simp only: power_add)
  have "2 ^ 52 * 2 ^ sh div 2 ^ sh \<le> a div 2 ^ sh"
    using lo unfolding split by (rule div_le_mono)
  then have q: "2 ^ 52 \<le> a div 2 ^ sh" by simp
  have big: "(2::nat) ^ 1024 \<le> q' * 2 ^ sh" if "a div 2 ^ sh \<le> q'" for q'
  proof -
    have "(2::nat) ^ 1024 \<le> 2 ^ (n - 1)" using n by (intro power_increasing) auto
    also have "\<dots> = 2 ^ 52 * 2 ^ sh" by (rule split)
    also have "\<dots> \<le> q' * 2 ^ sh" using q that by (intro mult_right_mono) auto
    finally show ?thesis .
  qed
  have n53: "\<not> n \<le> 53" using n by simp
  show ?thesis
    unfolding float_of_int_def Let_def a_def [symmetric] n_def [symmetric] sh_def [symmetric]
    using n53 big [of "a div 2 ^ sh"] big [of "a div 2 ^ sh + 1"]
    by (simp del: power_le_one_iff)
qed

lemma float_of_int_ties:
  "float_of_int 9007199254740993 = Some 9007199254740992"
proof -
  have "bit_length 9007199254740993 = Suc 53"
    by (rule bit_length_eq) simp_all
  then show ?thesis
    by (simp add: float_of_int_def Let_def)
qed

text \<open>
  Claim C4, as the code has it. \<open>set_estimate\<close> stores \<open>float(hours)\<close> in
  \<open>estimated_hours\<close>, whatever its sign, and the clock reading in \<open>updated_at\<close>; it raises
  exactly when the conversion raises, with the exception of the conversion, and then the
  task is unchanged. A float is stored as it is; an integer below \<open>2 ^ 53\<close> in magnitude is
  stored exactly; an integer of magnitude \<open>2 ^ 1024\<close> or more raises \<open>OverflowError\<close>.
\<close>

theorem set_estimate_spec:
  "(\<forall>x. py_float parse hours = Returned x \<longrightarrow>
      set_estimate parse task hours now =
        (Returned (), task\<lparr>attrs := (attrs task)(''estimated_hours'' \<mapsto> VFloat x,
                                                   ''updated_at'' \<mapsto> VDatetime now)\<rparr>)) \<and>
   (\<forall>e. py_float parse hours = Raised e \<longrightarrow> set_estimate parse task hours now = (Raised e, task)) \<and>
   ((\<exists>e. fst (set_estimate parse task hours now) = Raised e) \<longleftrightarrow> (\<exists>e. py_float parse hours = Raised e)) \<and>
   (\<forall>x. hours = VFloat x \<longrightarrow> py_float parse hours = Returned x) \<and>
   (\<forall>i. hours = VInt i \<and> \<bar>i\<bar> < 2 ^ 53 \<longrightarrow> py_float parse hours = Returned (of_int i)) \<and>
   (\<forall>i. hours = VInt i \<and> 2 ^ 1024 \<le> \<bar>i\<bar> \<longrightarrow> py_float parse hours = Raised OverflowError)"
  by (cases "py_float parse hours")
     (auto simp: set_estimate_def setattr_def float_of_int_exact float_of_int_overflow)

theorem set_estimate_spec_witness:
  "py_float Map.empty (VInt 6) = Returned 6 \<and>
   set_estimate Map.empty audit_report (VInt 6) 20 =
     (Returned (), audit_report\<lparr>attrs := (attrs audit_report)
        (''estimated_hours'' \<mapsto> VFloat 6, ''updated_at'' \<mapsto> VDatetime 20)\<rparr>) \<and>
   py_float Map.empty (VStr ''six'') = Raised ValueError \<and>
   set_estimate Map.empty audit_report (VStr ''six'') 20 = (Raised ValueError, audit_report) \<and>
   py_float Map.empty (VInt (2 ^ 1024)) = Raised OverflowError \<and>
   set_estimate Map.empty audit_report (VInt (2 ^ 1024)) 20 = (Raised OverflowError, audit_report) \<and>
   py_float Map.empty (VInt 9007199254740993) = Returned 9007199254740992 \<and>
   set_estimate Map.empty audit_report (VInt 9007199254740993) 20 =
     (Returned (), audit_report\<lparr>attrs := (attrs audit_report)
        (''estimated_hours'' \<mapsto> VFloat 9007199254740992, ''updated_at'' \<mapsto> VDatetime 20)\<rparr>)"
proof -
  have six: "\<bar>6 :: int\<bar> < 2 ^ 53" by simp
  have big: "(2 :: int) ^ 1024 \<le> \<bar>2 ^ 1024\<bar>" by simp
  have tie: "py_float Map.empty (VInt 9007199254740993) = Returned 9007199254740992"
    by (simp add: float_of_int_ties)
  from set_estimate_spec [of Map.empty "VInt 6" audit_report 20] six
  have 1: "py_float Map.empty (VInt 6) = Returned 6"
    and 2: "set_estimate Map.empty audit_report (VInt 6) 20 =
     (Returned (), audit_report\<lparr>attrs := (attrs audit_report)
        (''estimated_hours'' \<mapsto> VFloat 6, ''updated_at'' \<mapsto> VDatetime 20)\<rparr>)"
    by auto
  from set_estimate_spec [of Map.empty "VStr ''six''" audit_report 20]
  have 3: "py_float Map.empty (VStr ''six'') = Raised ValueError"
    and 4: "set_estimate Map.empty audit_report (VStr ''six'') 20 = (Raised ValueError, audit_report)"
    by auto
  from set_estimate_spec [of Map.empty "VInt (2 ^ 1024)" audit_report 20] big
  have 5: "py_float Map.empty (VInt (2 ^ 1024)) = Raised OverflowError"
    and 6: "set_estimate Map.empty audit_report (VInt (2 ^ 1024)) 20 = (Raised OverflowError, audit_report)"
    by blast+
  from set_estimate_spec [of Map.empty "VInt 9007199254740993" audit_report 20] tie
  have 7: "set_estimate Map.empty audit_report (VInt 9007199254740993) 20 =
     (Returned (), audit_report\<lparr>attrs := (attrs audit_report)
        (''estimated_hours'' \<mapsto> VFloat 9007199254740992, ''updated_at'' \<mapsto> VDatetime 20)\<rparr>)"
    by blast
  from 1 2 3 4 5 6 7 tie show ?thesis by blast
qed

text \<open>
  Claim C4 as stated asks for a positive float. The code has no such check: the estimate
  \<open>-3.0\<close> is accepted and stored.
\<close>

theorem set_estimate_not_positive:
  "fst (set_estimate Map.empty audit_report (VFloat (- 3)) 20) = Returned () \<and>
   attrs (snd (set_estimate Map.empty audit_report (VFloat (- 3)) 20)) ''estimated_hours'' = Some (VFloat (- 3)) \<and>
   \<not> (0::real) < - 3"
  by (simp add: set_estimate_def setattr_def)

subsection \<open>Filtering by tags\<close>

lemma all_tags_in_sets:
  assumes "attrs task ''tags'' = Some (VStrSet S)"
  shows "all_tags_in lower task (map VStr qs) = Returned (\<forall>q\<in>set qs. lower q |\<in>| S)"
  using assms by (induction qs) (auto simp: getattr_def)

lemma all_tags_in_tag_set:
  assumes "has_tag_set task"
  shows "all_tags_in lower task (map VStr qs) = Returned (fset_of_list (map lower qs) |\<subseteq>| tag_set task)"
proof -
  from assms obtain S where S: "attrs task ''tags'' = Some (VStrSet S)"
    by (auto simp: has_tag_set_def split: option.splits pyval.splits)
  then have "tag_set task = S" by (simp add: tag_set_def)
  with all_tags_in_sets [OF S, of lower qs] show ?thesis
    by (auto simp: fset_of_list.rep_eq less_eq_fset.rep_eq)
qed

lemma tag_set_tagged: "tag_set (tagged i S) = S" "has_tag_set (tagged i S)"
  by (simp_all add: tagged_def has_tag_set_def tag_set_def setattr_def)

lemma ascii_lower_samples:
  "ascii_lower ''urgent'' = ''urgent''" "ascii_lower ''work'' = ''work''"
  "ascii_lower ''Urgent'' = ''urgent''" "ascii_lower ''WORK'' = ''work''"
  "ascii_lower ''URGENT'' = ''urgent''"
  by code_simp+

text \<open>
  Claim C8. On tasks whose tags are sets and a list of query strings,
  \<open>filter_by_multiple_tags\<close> returns, in their order, exactly the tasks whose tag set
  contains the lower-cased form, by \<open>str.lower\<close>, of every query tag. Among tasks tagged
  \<open>{urgent, work}\<close>, \<open>{urgent}\<close> and \<open>{work}\<close>, the query \<open>["urgent", "work"]\<close>
  returns only the first, and so does \<open>["Urgent", "WORK"]\<close>.
\<close>

theorem filter_by_multiple_tags_spec:
  assumes "list_all has_tag_set ts"
  shows "filter_by_multiple_tags lower ts (map VStr qs) =
           Returned (filter (\<lambda>task. fset_of_list (map lower qs) |\<subseteq>| tag_set task) ts)"
  using assms by (induction ts) (simp_all add: all_tags_in_tag_set)

theorem filter_by_multiple_tags_spec_witness:
  "list_all has_tag_set
     [tagged ''a'' {|''urgent'', ''work''|}, tagged ''b'' {|''urgent''|}, tagged ''c'' {|''work''|}] \<and>
   filter_by_multiple_tags ascii_lower
     [tagged ''a'' {|''urgent'', ''work''|}, tagged ''b'' {|''urgent''|}, tagged ''c'' {|''work''|}]
     (map VStr [''urgent'', ''work'']) =
   Returned [tagged ''a'' {|''urgent'', ''work''|}] \<and>
   filter_by_multiple_tags ascii_lower
     [tagged ''a'' {|''urgent'', ''work''|}, tagged ''b'' {|''urgent''|}, tagged ''c'' {|''work''|}]
     (map VStr [''Urgent'', ''WORK'']) =
   Returned [tagged ''a'' {|''urgent'', ''work''|}] \<and>
   filter_by_multiple_tags ascii_lower
     [tagged ''a'' {|''urgent'', ''work''|}, tagged ''b'' {|''urgent''|}, tagged ''c'' {|''work''|}]
     (map VStr [''WORK'']) =
   Returned [tagged ''a'' {|''urgent'', ''work''|}, tagged ''c'' {|''work''|}]"
  using filter_by_multiple_tags_spec [of
      "[tagged ''a'' {|''urgent'', ''work''|}, tagged ''b'' {|''urgent''|}, tagged ''c'' {|''work''|}]"
      ascii_lower "[''urgent'', ''work'']"]
    filter_by_multiple_tags_spec [of
      "[tagged ''a'' {|''urgent'', ''work''|}, tagged ''b'' {|''urgent''|}, tagged ''c'' {|''work''|}]"
      ascii_lower "[''Urgent'', ''WORK'']"]
    filter_by_multiple_tags_spec [of
      "[tagged ''a'' {|''urgent'', ''work''|}, tagged ''b'' {|''urgent''|}, tagged ''c'' {|''work''|}]"
      ascii_lower "[''WORK'']"]
  by (simp add: tag_set_tagged ascii_lower_samples)

subsection \<open>The manager: adding, updating, deleting\<close>

lemma record_history_ok:
  assumes "attrs task ''id'' = Some i" and "attrs task ''title'' = Some ti"
  shows "record_history isoformat m act task now =
           (Returned (),
            m\<lparr>task_history := task_history m @
               [[(''action'', VStr act), (''task_id'', i), (''task_title'', ti),
                 (''timestamp'', VStr (isoformat now))]]\<rparr>)"
  using assms by (simp add: record_history_def getattr_def)

lemma desk_get:
  "tasks_get desk (VStr ''a1'') = Some pay_rent"
  "tasks_get desk (VStr ''zz'') = None"
  by (simp_all add: desk_def tasks_get_def)

text \<open>
  Claim C6. \<open>delete_task\<close> on an identifier that is not registered returns \<open>False\<close> and
  leaves the manager, tasks and history, as it was. On a registered identifier it removes
  the task, appends exactly one \<open>delete\<close> record with the identifier and the title of the
  removed task, and returns \<open>True\<close>.
\<close>

theorem delete_task_spec:
  assumes "hashable tid"
  shows "(tasks_get m tid = None \<longrightarrow> delete_task isoformat m tid now = (Returned False, m)) \<and>
         (\<forall>task i ti. tasks_get m tid = Some task \<and> attrs task ''id'' = Some i \<and> attrs task ''title'' = Some ti \<longrightarrow>
            delete_task isoformat m tid now =
              (Returned True,
               m\<lparr>tasks := AList.delete (hkey tid) (tasks m),
                 task_history := task_history m @
                   [[(''action'', VStr ''delete''), (''task_id'', i), (''task_title'', ti),
                     (''timestamp'', VStr (isoformat now))]]\<rparr>) \<and>
            tasks_get (snd (delete_task isoformat m tid now)) tid = None)"
  using assms
  by (auto simp: delete_task_def record_history_ok tasks_pop_def tasks_get_def delete_conv')

theorem delete_task_spec_witness:
  "hashable (VStr ''zz'') \<and> tasks_get desk (VStr ''zz'') = None \<and>
   delete_task tally_isoformat desk (VStr ''zz'') 30 = (Returned False, desk) \<and>
   hashable (VStr ''a1'') \<and> tasks_get desk (VStr ''a1'') = Some pay_rent \<and>
   delete_task tally_isoformat desk (VStr ''a1'') 30 =
     (Returned True,
      \<lparr>tasks = [],
       task_history = [[(''action'', VStr ''delete''), (''task_id'', VStr ''a1''),
                        (''task_title'', VStr ''pay rent''), (''timestamp'', VStr (tally_isoformat 30))]]\<rparr>)"
  using delete_task_spec [of "VStr ''zz''" desk tally_isoformat 30]
    delete_task_spec [of "VStr ''a1''" desk tally_isoformat 30]
  by (simp add: desk_get pay_rent_attrs) (simp add: desk_def)

text \<open>
  Claim C10. \<open>add_task\<close> stores the task under its identifier, appends one \<open>add\<close> record
  and returns the task. Nothing depends on whether the identifier is already registered:
  then the task registered before is replaced at its place, no exception is raised, and the
  record is appended all the same.
\<close>

theorem add_task_spec:
  assumes "attrs task ''id'' = Some i" and "hashable i" and "attrs task ''title'' = Some ti"
  shows "add_task isoformat m task now =
           (Returned task,
            m\<lparr>tasks := AList.update (hkey i) task (tasks m),
              task_history := task_history m @
                [[(''action'', VStr ''add''), (''task_id'', i), (''task_title'', ti),
                  (''timestamp'', VStr (isoformat now))]]\<rparr>) \<and>
         tasks_get (snd (add_task isoformat m task now)) i = Some task \<and>
         (\<forall>old. tasks_get m i = Some old \<longrightarrow>
            map fst (tasks (snd (add_task isoformat m task now))) = map fst (tasks m))"
proof -
  have eq: "add_task isoformat m task now =
           (Returned task,
            m\<lparr>tasks := AList.update (hkey i) task (tasks m),
              task_history := task_history m @
                [[(''action'', VStr ''add''), (''task_id'', i), (''task_title'', ti),
                  (''timestamp'', VStr (isoformat now))]]\<rparr>)"
    using assms by (simp add: add_task_def getattr_def record_history_ok tasks_set_def)
  have keys: "map fst (AList.update (hkey i) task (tasks m)) = map fst (tasks m)"
    if "tasks_get m i = Some old" for old
  proof -
    from that have "hkey i \<in> set (map fst (tasks m))"
      by (auto simp: tasks_get_def dest: map_of_SomeD intro: rev_image_eqI)
    then show ?thesis by (simp add: update_keys)
  qed
  show ?thesis
    unfolding eq by (simp add: tasks_get_def update_conv' keys)
qed

theorem add_task_spec_witness:
  "attrs pay_rent ''id'' = Some (VStr ''a1'') \<and> hashable (VStr ''a1'') \<and>
   attrs pay_rent ''title'' = Some (VStr ''pay rent'') \<and>
   add_task tally_isoformat TaskManager_init pay_rent 30 =
     (Returned pay_rent,
      \<lparr>tasks = [(VStr ''a1'', pay_rent)],
       task_history = [[(''action'', VStr ''add''), (''task_id'', VStr ''a1''),
                        (''task_title'', VStr ''pay rent''), (''timestamp'', VStr (tally_isoformat 30))]]\<rparr>) \<and>
   tasks_get desk (VStr ''a1'') = Some pay_rent \<and>
   fst (add_task tally_isoformat desk (setattr pay_rent ''title'' (VStr ''pay the rent'')) 31) =
     Returned (setattr pay_rent ''title'' (VStr ''pay the rent'')) \<and>
   tasks (snd (add_task tally_isoformat desk (setattr pay_rent ''title'' (VStr ''pay the rent'')) 31)) =
     [(VStr ''a1'', setattr pay_rent ''title'' (VStr ''pay the rent''))] \<and>
   length (task_history (snd (add_task tally_isoformat desk
     (setattr pay_rent ''title'' (VStr ''pay the rent'')) 31))) = 1"
  using add_task_spec [of pay_rent "VStr ''a1''" "VStr ''pay rent''" tally_isoformat TaskManager_init 30]
    add_task_spec [of "setattr pay_rent ''title'' (VStr ''pay the rent'')" "VStr ''a1''" "VStr ''pay the rent''"
      tally_isoformat desk 31]
  by (simp add: desk_get pay_rent_attrs TaskManager_init_def setattr_def) (simp add: desk_def)

lemma hasattr_setattr:
  "hasattr inherited task k \<Longrightarrow> hasattr inherited (setattr task k v) k' = hasattr inherited task k'"
  by (auto simp: hasattr_def setattr_def)

lemma py_setattr_ok:
  "name \<notin> set unassignable \<Longrightarrow> py_setattr task name v = (Returned (), setattr task name v)"
  by (auto simp: py_setattr_def unassignable_def)

lemma apply_kwargs_ok:
  "distinct (map fst kwargs) \<Longrightarrow> set unassignable \<inter> fst ` set kwargs = {} \<Longrightarrow>
   \<exists>task'. apply_kwargs inherited task kwargs = (Returned (), task') \<and> cls task' = cls task \<and>
     (\<forall>k. attrs task' k =
        (if hasattr inherited task k
         then (case map_of kwargs k of Some v \<Rightarrow> Some v | None \<Rightarrow> attrs task k)
         else attrs task k))"
proof (induction kwargs arbitrary: task)
  case Nil
  then show ?case by simp
next
  case (Cons kv kwargs)
  obtain key v where kv: "kv = (key, v)" by (cases kv)
  from Cons.prems kv have d: "distinct (map fst kwargs)" and nk: "key \<notin> fst ` set kwargs"
    and u: "set unassignable \<inter> fst ` set kwargs = {}" and ku: "key \<notin> set unassignable"
    by auto
  from nk have none: "map_of kwargs key = None" by (simp add: map_of_eq_None_iff)
  show ?case
  proof (cases "hasattr inherited task key")
    case True
    have hs: "\<And>k'. hasattr inherited (setattr task key v) k' = hasattr inherited task k'"
      using True by (rule hasattr_setattr)
    have at: "\<And>k'. attrs (setattr task key v) k' = (if k' = key then Some v else attrs task k')"
      by (simp add: setattr_def)
    have c: "cls (setattr task key v) = cls task" by (simp add: setattr_def)
    from Cons.IH [OF d u, of "setattr task key v"] obtain task' where
      t': "apply_kwargs inherited (setattr task key v) kwargs = (Returned (), task')"
        "cls task' = cls (setattr task key v)"
        "\<forall>k. attrs task' k =
          (if hasattr inherited (setattr task key v) k
           then (case map_of kwargs k of Some v' \<Rightarrow> Some v' | None \<Rightarrow> attrs (setattr task key v) k)
           else attrs (setattr task key v) k)"
      by blast
    have "apply_kwargs inherited task (kv # kwargs) = (Returned (), task')"
      using True by (simp add: kv py_setattr_ok [OF ku] t'(1))
    moreover have "\<forall>k. attrs task' k =
        (if hasattr inherited task k
         then (case map_of (kv # kwargs) k of Some v \<Rightarrow> Some v | None \<Rightarrow> attrs task k)
         else attrs task k)"
      using True none by (auto simp: kv t'(3) hs at split: option.splits)
    ultimately show ?thesis using t'(2) c by auto
  next
    case False
    from Cons.IH [OF d u, of task] obtain task' where
      t': "apply_kwargs inherited task kwargs = (Returned (), task')"
        "cls task' = cls task"
        "\<forall>k. attrs task' k =
          (if hasattr inherited task k
           then (case map_of kwargs k of Some v \<Rightarrow> Some v | None \<Rightarrow> attrs task k)
           else attrs task k)"
      by blast
    have "apply_kwargs inherited task (kv # kwargs) = (Returned (), task')"
      using False by (simp add: kv t'(1))
    moreover have "\<forall>k. attrs task' k =
        (if hasattr inherited task k
         then (case map_of (kv # kwargs) k of Some v \<Rightarrow> Some v | None \<Rightarrow> attrs task k)
         else attrs task k)"
      using False by (auto simp: kv t'(3))
    ultimately show ?thesis using t'(2) by blast
  qed
qed

lemma update_task_found:
  assumes "''self'' \<notin> fst ` set kwargs" and "''task_id'' \<notin> fst ` set kwargs"
    and "hashable tid" and "distinct (map fst kwargs)"
    and "set unassignable \<inter> fst ` set kwargs = {}"
    and "tasks_get m tid = Some task" and "attrs task ''id'' = Some i" and "attrs task ''title'' = Some ti"
  shows "\<exists>task' i' ti'.
           update_task isoformat inherited m tid kwargs now1 now2 =
             (Returned True,
              m\<lparr>tasks := AList.update (hkey tid) task' (tasks m),
                task_history := task_history m @
                  [[(''action'', VStr ''update''), (''task_id'', i'), (''task_title'', ti'),
                    (''timestamp'', VStr (isoformat now2))]]\<rparr>) \<and>
           attrs task' ''id'' = Some i' \<and> attrs task' ''title'' = Some ti' \<and>
           cls task' = cls task \<and>
           (\<forall>k. attrs task' k =
              (if k = ''updated_at'' then Some (VDatetime now1)
               else if hasattr inherited task k
                    then (case map_of kwargs k of Some v \<Rightarrow> Some v | None \<Rightarrow> attrs task k)
                    else attrs task k))"
proof -
  from apply_kwargs_ok [OF assms(4,5), of inherited task] obtain t1 where
    ak: "apply_kwargs inherited task kwargs = (Returned (), t1)" and c1: "cls t1 = cls task"
    and a1: "\<And>k. attrs t1 k =
     (if hasattr inherited task k then (case map_of kwargs k of Some v \<Rightarrow> Some v | None \<Rightarrow> attrs task k)
      else attrs task k)"
    by blast
  let ?t2 = "setattr t1 ''updated_at'' (VDatetime now1)"
  have a2: "\<And>k. attrs ?t2 k = (if k = ''updated_at'' then Some (VDatetime now1) else attrs t1 k)"
    by (simp add: setattr_def)
  have "\<exists>i'. attrs ?t2 ''id'' = Some i'"
    using assms(7) by (cases "map_of kwargs ''id''") (simp_all add: a2 a1)
  then obtain i' where i': "attrs ?t2 ''id'' = Some i'" ..
  have "\<exists>ti'. attrs ?t2 ''title'' = Some ti'"
    using assms(8) by (cases "map_of kwargs ''title''") (simp_all add: a2 a1)
  then obtain ti' where ti': "attrs ?t2 ''title'' = Some ti'" ..
  have c: "cls ?t2 = cls task"
    by (simp add: setattr_def c1)
  have "update_task isoformat inherited m tid kwargs now1 now2 =
             (Returned True,
              m\<lparr>tasks := AList.update (hkey tid) ?t2 (tasks m),
                task_history := task_history m @
                  [[(''action'', VStr ''update''), (''task_id'', i'), (''task_title'', ti'),
                    (''timestamp'', VStr (isoformat now2))]]\<rparr>)"
    using assms(1,2,3,6)
    by (simp add: update_task_def ak Let_def record_history_ok [OF i' ti'] tasks_set_def)
  moreover have "\<forall>k. attrs ?t2 k =
              (if k = ''updated_at'' then Some (VDatetime now1)
               else if hasattr inherited task k
                    then (case map_of kwargs k of Some v \<Rightarrow> Some v | None \<Rightarrow> attrs task k)
                    else attrs task k)"
    by (simp add: a2 a1)
  ultimately show ?thesis using i' ti' c by blast
qed

lemma pay_rent_hasattr:
  "hasattr python_3_11_inherited pay_rent ''title''"
  "hasattr python_3_11_inherited pay_rent ''status''"
  "hasattr python_3_11_inherited pay_rent ''tags''"
  "hasattr python_3_11_inherited pay_rent ''__class__''"
  "\<not> hasattr python_3_11_inherited pay_rent ''colour''"
  by (simp_all add: hasattr_def pay_rent_attrs unassignable_def python_3_11_inherited_def)

text \<open>
  Claim C5, as the code has it. A keyword named \<open>self\<close> or \<open>task_id\<close> makes the call
  raise \<open>TypeError\<close> and change nothing. Without such a keyword, \<open>update_task\<close> on an
  identifier that is not registered returns \<open>False\<close> and changes nothing. On a registered
  one, when no keyword is \<open>__class__\<close>, \<open>__dict__\<close> or \<open>__weakref__\<close>, it returns
  \<open>True\<close>; the task keeps its class; every attribute the task has and the arguments name
  holds the value given, names the task does not have are ignored, every other attribute
  is as before, and \<open>updated_at\<close> holds the clock reading; one \<open>update\<close> record with the
  identifier and the title of the changed task is appended.
\<close>

theorem update_task_spec:
  "(''self'' \<in> fst ` set kwargs \<or> ''task_id'' \<in> fst ` set kwargs \<longrightarrow>
      update_task isoformat inherited m tid kwargs now1 now2 = (Raised TypeError, m)) \<and>
   (''self'' \<notin> fst ` set kwargs \<and> ''task_id'' \<notin> fst ` set kwargs \<and> hashable tid \<and>
    tasks_get m tid = None \<longrightarrow>
      update_task isoformat inherited m tid kwargs now1 now2 = (Returned False, m)) \<and>
   (\<forall>task i ti.
      ''self'' \<notin> fst ` set kwargs \<and> ''task_id'' \<notin> fst ` set kwargs \<and> hashable tid \<and>
      distinct (map fst kwargs) \<and> set unassignable \<inter> fst ` set kwargs = {} \<and>
      tasks_get m tid = Some task \<and> attrs task ''id'' = Some i \<and> attrs task ''title'' = Some ti \<longrightarrow>
      (\<exists>task' i' ti'.
         update_task isoformat inherited m tid kwargs now1 now2 =
           (Returned True,
            m\<lparr>tasks := AList.update (hkey tid) task' (tasks m),
              task_history := task_history m @
                [[(''action'', VStr ''update''), (''task_id'', i'), (''task_title'', ti'),
                  (''timestamp'', VStr (isoformat now2))]]\<rparr>) \<and>
         attrs task' ''id'' = Some i' \<and> attrs task' ''title'' = Some ti' \<and>
         cls task' = cls task \<and>
         (\<forall>k. attrs task' k =
            (if k = ''updated_at'' then Some (VDatetime now1)
             else if hasattr inherited task k
                  then (case map_of kwargs k of Some v \<Rightarrow> Some v | None \<Rightarrow> attrs task k)
                  else attrs task k)))) \<and>
   unassignable = [''__class__'', ''__dict__'', ''__weakref__'']"
proof -
  have 1: "update_task isoformat inherited m tid kwargs now1 now2 = (Raised TypeError, m)"
    if "''self'' \<in> fst ` set kwargs \<or> ''task_id'' \<in> fst ` set kwargs"
    using that by (auto simp: update_task_def)
  have 2: "update_task isoformat inherited m tid kwargs now1 now2 = (Returned False, m)"
    if "''self'' \<notin> fst ` set kwargs" "''task_id'' \<notin> fst ` set kwargs" "hashable tid" "tasks_get m tid = None"
    using that by (simp add: update_task_def)
  show ?thesis
    using 1 2 update_task_found [of kwargs tid m _ _ _ isoformat inherited now1 now2]
    by (simp add: unassignable_def)
qed

theorem update_task_spec_witness:
  "update_task tally_isoformat python_3_11_inherited desk (VStr ''a1'') [(''self'', VNone)] 30 31 =
     (Raised TypeError, desk) \<and>
   hashable (VStr ''zz'') \<and> tasks_get desk (VStr ''zz'') = None \<and>
   update_task tally_isoformat python_3_11_inherited desk (VStr ''zz'')
     [(''title'', VStr ''pay the rent''), (''colour'', VStr ''red'')] 30 31 = (Returned False, desk) \<and>
   hashable (VStr ''a1'') \<and>
   distinct (map fst [(''title'', VStr ''pay the rent''), (''colour'', VStr ''red'')]) \<and>
   set unassignable \<inter> fst ` set [(''title'', VStr ''pay the rent''), (''colour'', VStr ''red'')] = {} \<and>
   tasks_get desk (VStr ''a1'') = Some pay_rent \<and>
   hasattr python_3_11_inherited pay_rent ''title'' \<and> \<not> hasattr python_3_11_inherited pay_rent ''colour'' \<and>
   update_task tally_isoformat python_3_11_inherited desk (VStr ''a1'')
     [(''title'', VStr ''pay the rent''), (''colour'', VStr ''red'')] 30 31 =
     (Returned True,
      \<lparr>tasks = [(VStr ''a1'',
          setattr (setattr pay_rent ''title'' (VStr ''pay the rent'')) ''updated_at'' (VDatetime 30))],
       task_history = [[(''action'', VStr ''update''), (''task_id'', VStr ''a1''),
                        (''task_title'', VStr ''pay the rent''), (''timestamp'', VStr (tally_isoformat 31))]]\<rparr>)"
proof -
  let ?kw = "[(''title'', VStr ''pay the rent''), (''colour'', VStr ''red'')]"
  have 1: "update_task tally_isoformat python_3_11_inherited desk (VStr ''a1'') [(''self'', VNone)] 30 31 =
     (Raised TypeError, desk)"
    using update_task_spec [of "[(''self'', VNone)]" tally_isoformat python_3_11_inherited desk
        "VStr ''a1''" 30 31, THEN conjunct1]
    by simp
  have 2: "update_task tally_isoformat python_3_11_inherited desk (VStr ''zz'') ?kw 30 31 = (Returned False, desk)"
    using update_task_spec [of ?kw tally_isoformat python_3_11_inherited desk
        "VStr ''zz''" 30 31, THEN conjunct2, THEN conjunct1]
    by (simp add: desk_get)
  have ak: "apply_kwargs python_3_11_inherited pay_rent ?kw =
      (Returned (), setattr pay_rent ''title'' (VStr ''pay the rent''))"
    by (simp add: pay_rent_hasattr hasattr_setattr py_setattr_def)
  have i': "attrs (setattr (setattr pay_rent ''title'' (VStr ''pay the rent'')) ''updated_at'' (VDatetime 30)) ''id''
      = Some (VStr ''a1'')"
    and ti': "attrs (setattr (setattr pay_rent ''title'' (VStr ''pay the rent'')) ''updated_at'' (VDatetime 30))
      ''title'' = Some (VStr ''pay the rent'')"
    by (simp_all add: setattr_def pay_rent_attrs)
  have 3: "update_task tally_isoformat python_3_11_inherited desk (VStr ''a1'') ?kw 30 31 =
     (Returned True,
      \<lparr>tasks = [(VStr ''a1'',
          setattr (setattr pay_rent ''title'' (VStr ''pay the rent'')) ''updated_at'' (VDatetime 30))],
       task_history = [[(''action'', VStr ''update''), (''task_id'', VStr ''a1''),
                        (''task_title'', VStr ''pay the rent''), (''timestamp'', VStr (tally_isoformat 31))]]\<rparr>)"
    by (simp add: update_task_def desk_get ak Let_def record_history_ok [OF i' ti'] tasks_set_def
          del: apply_kwargs.simps)
       (simp add: desk_def)
  have 4: "set unassignable \<inter> fst ` set ?kw = {}"
    by (simp add: unassignable_def)
  from 1 2 3 4 show ?thesis
    by (simp add: desk_get pay_rent_hasattr)
qed

text \<open>
  Claim C5 as stated has \<open>update_task\<close> return \<open>False\<close> for every patch when the
  identifier is not registered. A patch with the name \<open>task_id\<close> is a second value for
  the parameter of the method: the call raises \<open>TypeError\<close>.
\<close>

theorem update_task_parameter_name:
  "tasks_get desk (VStr ''zz'') = None \<and>
   update_task tally_isoformat python_3_11_inherited desk (VStr ''zz'') [(''task_id'', VStr ''a1'')] 30 31 =
     (Raised TypeError, desk)"
  by (simp add: desk_get update_task_def)

lemma update_task_stored:
  assumes "''self'' \<notin> fst ` set kwargs" and "''task_id'' \<notin> fst ` set kwargs"
    and "hashable tid" and "distinct (map fst kwargs)"
    and "set unassignable \<inter> fst ` set kwargs = {}"
    and "tasks_get m tid = Some task" and "attrs task ''id'' = Some i" and "attrs task ''title'' = Some ti"
  shows "fst (update_task isoformat inherited m tid kwargs now1 now2) = Returned True \<and>
         (\<exists>task'. tasks_get (snd (update_task isoformat inherited m tid kwargs now1 now2)) tid = Some task' \<and>
            (\<forall>k. attrs task' k =
              (if k = ''updated_at'' then Some (VDatetime now1)
               else if hasattr inherited task k
                    then (case map_of kwargs k of Some v \<Rightarrow> Some v | None \<Rightarrow> attrs task k)
                    else attrs task k)))"
proof -
  from update_task_found [OF assms, of isoformat inherited now1 now2]
  obtain task' i' ti' where
    eq: "update_task isoformat inherited m tid kwargs now1 now2 =
             (Returned True,
              m\<lparr>tasks := AList.update (hkey tid) task' (tasks m),
                task_history := task_history m @
                  [[(''action'', VStr ''update''), (''task_id'', i'), (''task_title'', ti'),
                    (''timestamp'', VStr (isoformat now2))]]\<rparr>)"
    and at: "\<forall>k. attrs task' k =
              (if k = ''updated_at'' then Some (VDatetime now1)
               else if hasattr inherited task k
                    then (case map_of kwargs k of Some v \<Rightarrow> Some v | None \<Rightarrow> attrs task k)
                    else attrs task k)"
    by blast
  have "tasks_get (snd (update_task isoformat inherited m tid kwargs now1 now2)) tid = Some task'"
    unfolding eq by (simp add: tasks_get_def update_conv')
  with at show ?thesis unfolding eq by auto
qed

lemma ascii_lower_URGENT: "ascii_lower ''URGENT'' = ''urgent''"
  by code_simp

text \<open>
  Claim C9, as the code has it. Without the keywords \<open>self\<close>, \<open>task_id\<close>,
  \<open>__class__\<close>, \<open>__dict__\<close> and \<open>__weakref__\<close>, \<open>update_task\<close> on a registered task
  returns \<open>True\<close> and stores every value given for an attribute the task has as it is,
  without validation. So the patch \<open>status=Priority.LOW\<close>, or any member of \<open>Priority\<close>,
  leaves in \<open>status\<close> a value that is not a member of \<open>TaskStatus\<close> and that
  \<open>update_status\<close> rejects with \<open>ValueError\<close>; and a patch of \<open>tags\<close> leaves any
  string there as it is, where \<open>add_tag\<close> stores the lower-cased form of every tag.
\<close>

theorem update_task_no_validation:
  assumes "''self'' \<notin> fst ` set kwargs" and "''task_id'' \<notin> fst ` set kwargs"
    and "hashable tid" and "distinct (map fst kwargs)"
    and "set unassignable \<inter> fst ` set kwargs = {}"
    and "tasks_get m tid = Some task" and "attrs task ''id'' = Some i" and "attrs task ''title'' = Some ti"
  shows "fst (update_task isoformat inherited m tid kwargs now1 now2) = Returned True \<and>
         (\<exists>task'. tasks_get (snd (update_task isoformat inherited m tid kwargs now1 now2)) tid = Some task' \<and>
            (\<forall>k v. (k, v) \<in> set kwargs \<and> hasattr inherited task k \<and> k \<noteq> ''updated_at'' \<longrightarrow>
               attrs task' k = Some v)) \<and>
         (\<forall>p. \<exists>task'.
            fst (update_task isoformat inherited m tid [(''status'', VPriority p)] now1 now2) = Returned True \<and>
            tasks_get (snd (update_task isoformat inherited m tid [(''status'', VPriority p)] now1 now2)) tid
              = Some task' \<and>
            (hasattr inherited task ''status'' \<longrightarrow> attrs task' ''status'' = Some (VPriority p)) \<and>
            (\<forall>s. VPriority p \<noteq> VStatus s) \<and>
            update_status plain_in task (VPriority p) now1 = (Raised ValueError, task)) \<and>
         (\<forall>s. \<exists>task'.
            fst (update_task isoformat inherited m tid [(''tags'', VStrSet {|s|})] now1 now2) = Returned True \<and>
            tasks_get (snd (update_task isoformat inherited m tid [(''tags'', VStrSet {|s|})] now1 now2)) tid
              = Some task' \<and>
            (hasattr inherited task ''tags'' \<longrightarrow> attrs task' ''tags'' = Some (VStrSet {|s|}))) \<and>
         (\<forall>T s. attrs task ''tags'' = Some (VStrSet T) \<longrightarrow>
            attrs (snd (add_tag lower task (VStr s) now1)) ''tags'' = Some (VStrSet (finsert (lower s) T))) \<and>
         unassignable = [''__class__'', ''__dict__'', ''__weakref__'']"
proof -
  note st = update_task_stored [OF _ _ assms(3) _ _ assms(6,7,8)]
  have 1: "fst (update_task isoformat inherited m tid kwargs now1 now2) = Returned True \<and>
         (\<exists>task'. tasks_get (snd (update_task isoformat inherited m tid kwargs now1 now2)) tid = Some task' \<and>
            (\<forall>k v. (k, v) \<in> set kwargs \<and> hasattr inherited task k \<and> k \<noteq> ''updated_at'' \<longrightarrow>
               attrs task' k = Some v))"
    using st [OF assms(1,2,4,5), of isoformat inherited now1 now2] assms(4) by fastforce
  have 2: "\<exists>task'.
            fst (update_task isoformat inherited m tid [(''status'', VPriority p)] now1 now2) = Returned True \<and>
            tasks_get (snd (update_task isoformat inherited m tid [(''status'', VPriority p)] now1 now2)) tid
              = Some task' \<and>
            (hasattr inherited task ''status'' \<longrightarrow> attrs task' ''status'' = Some (VPriority p)) \<and>
            (\<forall>s. VPriority p \<noteq> VStatus s) \<and>
            update_status plain_in task (VPriority p) now1 = (Raised ValueError, task)" for p
  proof -
    have "''self'' \<notin> fst ` set [(''status'', VPriority p)]" "''task_id'' \<notin> fst ` set [(''status'', VPriority p)]"
      "distinct (map fst [(''status'', VPriority p)])"
      "set unassignable \<inter> fst ` set [(''status'', VPriority p)] = {}"
      by (simp_all add: unassignable_def)
    from st [OF this, of isoformat inherited now1 now2]
    obtain task' where "fst (update_task isoformat inherited m tid [(''status'', VPriority p)] now1 now2) = Returned True"
      and "tasks_get (snd (update_task isoformat inherited m tid [(''status'', VPriority p)] now1 now2)) tid = Some task'"
      and "hasattr inherited task ''status'' \<longrightarrow> attrs task' ''status'' = Some (VPriority p)"
      by auto
    moreover have "update_status plain_in task (VPriority p) now1 = (Raised ValueError, task)"
      by (simp add: update_status_def)
    ultimately show ?thesis by auto
  qed
  have 3: "\<exists>task'.
            fst (update_task isoformat inherited m tid [(''tags'', VStrSet {|s|})] now1 now2) = Returned True \<and>
            tasks_get (snd (update_task isoformat inherited m tid [(''tags'', VStrSet {|s|})] now1 now2)) tid
              = Some task' \<and>
            (hasattr inherited task ''tags'' \<longrightarrow> attrs task' ''tags'' = Some (VStrSet {|s|}))" for s
  proof -
    have "''self'' \<notin> fst ` set [(''tags'', VStrSet {|s|})]" "''task_id'' \<notin> fst ` set [(''tags'', VStrSet {|s|})]"
      "distinct (map fst [(''tags'', VStrSet {|s|})])"
      "set unassignable \<inter> fst ` set [(''tags'', VStrSet {|s|})] = {}"
      by (simp_all add: unassignable_def)
    from st [OF this, of isoformat inherited now1 now2]
    show ?thesis by auto
  qed
  have 4: "attrs (snd (add_tag lower task (VStr s) now1)) ''tags'' = Some (VStrSet (finsert (lower s) T))"
    if "attrs task ''tags'' = Some (VStrSet T)" for T s
    using that by (simp add: add_tag_def getattr_def setattr_def)
  have 5: "unassignable = [''__class__'', ''__dict__'', ''__weakref__'']"
    by (simp add: unassignable_def)
  from 1 2 3 4 5 show ?thesis by blast
qed

theorem update_task_no_validation_witness:
  "''self'' \<notin> fst ` set [(''status'', VPriority LOW), (''tags'', VStrSet {|''URGENT''|})] \<and>
   ''task_id'' \<notin> fst ` set [(''status'', VPriority LOW), (''tags'', VStrSet {|''URGENT''|})] \<and>
   hashable (VStr ''a1'') \<and>
   distinct (map fst [(''status'', VPriority LOW), (''tags'', VStrSet {|''URGENT''|})]) \<and>
   set unassignable \<inter> fst ` set [(''status'', VPriority LOW), (''tags'', VStrSet {|''URGENT''|})] = {} \<and>
   tasks_get desk (VStr ''a1'') = Some pay_rent \<and>
   attrs pay_rent ''id'' = Some (VStr ''a1'') \<and> attrs pay_rent ''title'' = Some (VStr ''pay rent'') \<and>
   hasattr python_3_11_inherited pay_rent ''status'' \<and> hasattr python_3_11_inherited pay_rent ''tags'' \<and>
   fst (update_task tally_isoformat python_3_11_inherited desk (VStr ''a1'')
          [(''status'', VPriority LOW), (''tags'', VStrSet {|''URGENT''|})] 30 31) = Returned True \<and>
   (\<exists>task'. tasks_get (snd (update_task tally_isoformat python_3_11_inherited desk (VStr ''a1'')
          [(''status'', VPriority LOW), (''tags'', VStrSet {|''URGENT''|})] 30 31)) (VStr ''a1'') = Some task' \<and>
      attrs task' ''status'' = Some (VPriority LOW) \<and>
      attrs task' ''tags'' = Some (VStrSet {|''URGENT''|})) \<and>
   update_status python_3_11_in pay_rent (VPriority LOW) 30 = (Raised ValueError, pay_rent) \<and>
   ascii_lower ''URGENT'' \<noteq> ''URGENT'' \<and>
   attrs (snd (add_tag ascii_lower pay_rent (VStr ''URGENT'') 30)) ''tags'' = Some (VStrSet {|''urgent''|})"
proof -
  have h: "''self'' \<notin> fst ` set [(''status'', VPriority LOW), (''tags'', VStrSet {|''URGENT''|})]"
    "''task_id'' \<notin> fst ` set [(''status'', VPriority LOW), (''tags'', VStrSet {|''URGENT''|})]"
    "hashable (VStr ''a1'')"
    "distinct (map fst [(''status'', VPriority LOW), (''tags'', VStrSet {|''URGENT''|})])"
    "set unassignable \<inter> fst ` set [(''status'', VPriority LOW), (''tags'', VStrSet {|''URGENT''|})] = {}"
    by (simp_all add: unassignable_def)
  note inst = update_task_no_validation [OF h desk_get(1) pay_rent_attrs(1,2),
      of tally_isoformat python_3_11_inherited 30 31 python_3_11_in ascii_lower]
  from inst obtain task' where
    t: "tasks_get (snd (update_task tally_isoformat python_3_11_inherited desk (VStr ''a1'')
          [(''status'', VPriority LOW), (''tags'', VStrSet {|''URGENT''|})] 30 31)) (VStr ''a1'') = Some task'"
      "\<forall>k v. (k, v) \<in> set [(''status'', VPriority LOW), (''tags'', VStrSet {|''URGENT''|})] \<and>
          hasattr python_3_11_inherited pay_rent k \<and> k \<noteq> ''updated_at'' \<longrightarrow> attrs task' k = Some v"
    by blast
  from t(2) have "attrs task' ''status'' = Some (VPriority LOW)" "attrs task' ''tags'' = Some (VStrSet {|''URGENT''|})"
    by (simp_all add: pay_rent_hasattr)
  with t(1) have ex: "\<exists>task'. tasks_get (snd (update_task tally_isoformat python_3_11_inherited desk (VStr ''a1'')
          [(''status'', VPriority LOW), (''tags'', VStrSet {|''URGENT''|})] 30 31)) (VStr ''a1'') = Some task' \<and>
      attrs task' ''status'' = Some (VPriority LOW) \<and>
      attrs task' ''tags'' = Some (VStrSet {|''URGENT''|})"
    by blast
  from inst have r: "fst (update_task tally_isoformat python_3_11_inherited desk (VStr ''a1'')
          [(''status'', VPriority LOW), (''tags'', VStrSet {|''URGENT''|})] 30 31) = Returned True"
    and us: "update_status python_3_11_in pay_rent (VPriority LOW) 30 = (Raised ValueError, pay_rent)"
    and tg: "attrs (snd (add_tag ascii_lower pay_rent (VStr ''URGENT'') 30)) ''tags'' =
               Some (VStrSet (finsert (ascii_lower ''URGENT'') {||}))"
    using pay_rent_attrs(4) by blast+
  have lw: "ascii_lower ''URGENT'' \<noteq> ''URGENT''"
    by (simp add: ascii_lower_URGENT)
  from h desk_get(1) pay_rent_attrs(1,2) pay_rent_hasattr(2,3) r ex us lw tg show ?thesis
    by (simp add: ascii_lower_URGENT)
qed

text \<open>
  Claim C9 as stated has the call never fail on a name the task has. Every task has the
  attribute \<open>__class__\<close>, and it cannot be assigned an integer: the call raises
  \<open>TypeError\<close>.
\<close>

theorem update_task_unassignable:
  "tasks_get desk (VStr ''a1'') = Some pay_rent \<and>
   hasattr python_3_11_inherited pay_rent ''__class__'' \<and>
   update_task tally_isoformat python_3_11_inherited desk (VStr ''a1'') [(''__class__'', VInt 5)] 30 31 =
     (Raised TypeError, desk)"
  by (simp add: desk_get pay_rent_hasattr update_task_def py_setattr_def tasks_set_def)
     (simp add: desk_def)

subsection \<open>Saving and loading\<close>

lemma Priority_lookup_name: "Priority_lookup (VStr (Priority_name p)) = Returned (VPriority p)"
  by (cases p) simp_all

lemma TaskStatus_lookup_name: "TaskStatus_lookup (VStr (TaskStatus_name s)) = Returned (VStatus s)"
  by (cases s) simp_all

lemma isoformat_or_none_opt:
  "isoformat_or_none f (opt_datetime x) = Returned (opt_str (map_option f x))"
  by (cases x) (simp_all add: isoformat_or_none_def)

lemma Task_to_dict_base:
  assumes "A ''id'' = Some (VStr i)" and "A ''title'' = Some (VStr t)"
    and "A ''description'' = Some (opt_str d)" and "A ''priority'' = Some (VPriority p)"
    and "A ''status'' = Some (VStatus s)" and "A ''created_at'' = Some (VDatetime cr)"
    and "A ''updated_at'' = Some (VDatetime u)" and "A ''due_date'' = Some (opt_datetime due)"
    and "A ''completion_date'' = Some (opt_datetime cd)" and "A ''tags'' = Some (VStrSet tags)"
  shows "Task_to_dict f order \<lparr>cls = c, attrs = A\<rparr> =
     Returned
       [(''id'', VStr i),
        (''title'', VStr t),
        (''description'', opt_str d),
        (''priority'', VStr (Priority_name p)),
        (''status'', VStr (TaskStatus_name s)),
        (''created_at'', VStr (f cr)),
        (''updated_at'', VStr (f u)),
        (''due_date'', opt_str (map_option f due)),
        (''completion_date'', opt_str (map_option f cd)),
        (''tags'', VStrList (order tags)),
        (''type'', VStr (class_name c))]"
  using assms by (simp add: Task_to_dict_def getattr_def isoformat_or_none_opt)

lemma to_dict_SimpleTask:
  "to_dict f order \<lparr>cls = SimpleTask, attrs = base_attrs i t d p s cr u due cd tags\<rparr> =
     Returned
       [(''id'', VStr i),
        (''title'', VStr t),
        (''description'', opt_str d),
        (''priority'', VStr (Priority_name p)),
        (''status'', VStr (TaskStatus_name s)),
        (''created_at'', VStr (f cr)),
        (''updated_at'', VStr (f u)),
        (''due_date'', opt_str (map_option f due)),
        (''completion_date'', opt_str (map_option f cd)),
        (''tags'', VStrList (order tags)),
        (''type'', VStr ''SimpleTask'')]"
proof -
  have "Task_to_dict f order \<lparr>cls = SimpleTask, attrs = base_attrs i t d p s cr u due cd tags\<rparr> =
     Returned
       [(''id'', VStr i),
        (''title'', VStr t),
        (''description'', opt_str d),
        (''priority'', VStr (Priority_name p)),
        (''status'', VStr (TaskStatus_name s)),
        (''created_at'', VStr (f cr)),
        (''updated_at'', VStr (f u)),
        (''due_date'', opt_str (map_option f due)),
        (''completion_date'', opt_str (map_option f cd)),
        (''tags'', VStrList (order tags)),
        (''type'', VStr (class_name SimpleTask))]"
    by (rule Task_to_dict_base) (simp_all add: base_attrs_def)
  moreover have "base_attrs i t d p s cr u due cd tags ''to_dict'' = None"
    by (simp add: base_attrs_def)
  ultimately show ?thesis by (simp add: to_dict_def)
qed

lemma to_dict_ProjectTask:
  "to_dict f order \<lparr>cls = ProjectTask,
       attrs = (base_attrs i t d p s cr u due cd tags)
         (''project'' \<mapsto> VStr project,
          ''dependencies'' \<mapsto> VStrSet deps,
          ''estimated_hours'' \<mapsto> VFloat hours)\<rparr> =
     Returned
       [(''id'', VStr i),
        (''title'', VStr t),
        (''description'', opt_str d),
        (''priority'', VStr (Priority_name p)),
        (''status'', VStr (TaskStatus_name s)),
        (''created_at'', VStr (f cr)),
        (''updated_at'', VStr (f u)),
        (''due_date'', opt_str (map_option f due)),
        (''completion_date'', opt_str (map_option f cd)),
        (''tags'', VStrList (order tags)),
        (''type'', VStr ''ProjectTask''),
        (''project'', VStr project),
        (''dependencies'', VStrList (order deps)),
        (''estimated_hours'', VFloat hours)]"
  (is "to_dict f order \<lparr>cls = ProjectTask, attrs = ?A\<rparr> = _")
proof -
  have "Task_to_dict f order \<lparr>cls = ProjectTask, attrs = ?A\<rparr> =
     Returned
       [(''id'', VStr i),
        (''title'', VStr t),
        (''description'', opt_str d),
        (''priority'', VStr (Priority_name p)),
        (''status'', VStr (TaskStatus_name s)),
        (''created_at'', VStr (f cr)),
        (''updated_at'', VStr (f u)),
        (''due_date'', opt_str (map_option f due)),
        (''completion_date'', opt_str (map_option f cd)),
        (''tags'', VStrList (order tags)),
        (''type'', VStr (class_name ProjectTask))]"
    by (rule Task_to_dict_base) (simp_all add: base_attrs_def)
  moreover have "?A ''to_dict'' = None"
    by (simp add: base_attrs_def)
  ultimately show ?thesis
    by (simp add: to_dict_def ProjectTask_to_dict_def getattr_def)
qed

lemma to_dict_RecurringTask:
  "to_dict f order \<lparr>cls = RecurringTask,
       attrs = (base_attrs i t d p s cr u due cd tags)
         (''frequency'' \<mapsto> VStr freq,
          ''recurrence_count'' \<mapsto> VInt n,
          ''last_completed'' \<mapsto> opt_datetime lc)\<rparr> =
     Returned
       [(''id'', VStr i),
        (''title'', VStr t),
        (''description'', opt_str d),
        (''priority'', VStr (Priority_name p)),
        (''status'', VStr (TaskStatus_name s)),
        (''created_at'', VStr (f cr)),
        (''updated_at'', VStr (f u)),
        (''due_date'', opt_str (map_option f due)),
        (''completion_date'', opt_str (map_option f cd)),
        (''tags'', VStrList (order tags)),
        (''type'', VStr ''RecurringTask''),
        (''frequency'', VStr freq),
        (''recurrence_count'', VInt n),
        (''last_completed'', opt_str (map_option f lc))]"
  (is "to_dict f order \<lparr>cls = RecurringTask, attrs = ?A\<rparr> = _")
proof -
  have "Task_to_dict f order \<lparr>cls = RecurringTask, attrs = ?A\<rparr> =
     Returned
       [(''id'', VStr i),
        (''title'', VStr t),
        (''description'', opt_str d),
        (''priority'', VStr (Priority_name p)),
        (''status'', VStr (TaskStatus_name s)),
        (''created_at'', VStr (f cr)),
        (''updated_at'', VStr (f u)),
        (''due_date'', opt_str (map_option f due)),
        (''completion_date'', opt_str (map_option f cd)),
        (''tags'', VStrList (order tags)),
        (''type'', VStr (class_name RecurringTask))]"
    by (rule Task_to_dict_base) (simp_all add: base_attrs_def)
  moreover have "?A ''to_dict'' = None"
    by (simp add: base_attrs_def)
  ultimately show ?thesis
    by (simp add: to_dict_def RecurringTask_to_dict_def getattr_def isoformat_or_none_opt)
qed

lemma load_task_SimpleTask:
  assumes iso: "\<forall>x. g (f x) = Some x \<and> f x \<noteq> []" and ord: "\<forall>S. fset_of_list (order S) = S"
  shows "load_task g uu nn
       [(''id'', VStr i),
        (''title'', VStr t),
        (''description'', opt_str d),
        (''priority'', VStr (Priority_name p)),
        (''status'', VStr (TaskStatus_name s)),
        (''created_at'', VStr (f cr)),
        (''updated_at'', VStr (f u)),
        (''due_date'', opt_str (map_option f due)),
        (''completion_date'', opt_str (map_option f cd)),
        (''tags'', VStrList (order tags)),
        (''type'', VStr ''SimpleTask'')] =
     Returned (Some \<lparr>cls = SimpleTask, attrs = base_attrs i t d p s cr u due cd tags\<rparr>)"
proof -
  have a: "\<And>x. g (f x) = Some x" and b: "\<And>x. f x \<noteq> []" and c: "\<And>S. fset_of_list (order S) = S"
    using iso ord by simp_all
  show ?thesis
    apply (cases due; cases cd)
       apply (simp_all add: a b c load_task_def dict_pop_def date_fields_def convert_enum_def construct_def
          dict_pop_default_def set_common_def Task_init_def ProjectTask_init_def RecurringTask_init_def
          setattr_def base_attrs_def Priority_lookup_name TaskStatus_lookup_name
          del: Priority_lookup.simps TaskStatus_lookup.simps)
       apply (rule ext, simp)+
    done
qed

lemma load_task_ProjectTask:
  assumes iso: "\<forall>x. g (f x) = Some x \<and> f x \<noteq> []" and ord: "\<forall>S. fset_of_list (order S) = S"
  shows "load_task g uu nn
       [(''id'', VStr i),
        (''title'', VStr t),
        (''description'', opt_str d),
        (''priority'', VStr (Priority_name p)),
        (''status'', VStr (TaskStatus_name s)),
        (''created_at'', VStr (f cr)),
        (''updated_at'', VStr (f u)),
        (''due_date'', opt_str (map_option f due)),
        (''completion_date'', opt_str (map_option f cd)),
        (''tags'', VStrList (order tags)),
        (''type'', VStr ''ProjectTask''),
        (''project'', VStr project),
        (''dependencies'', VStrList (order deps)),
        (''estimated_hours'', VFloat hours)] =
     Returned (Some \<lparr>cls = ProjectTask,
       attrs = (base_attrs i t d p s cr u due cd tags)
         (''project'' \<mapsto> VStr project,
          ''dependencies'' \<mapsto> VStrSet deps,
          ''estimated_hours'' \<mapsto> VFloat hours)\<rparr>)"
proof -
  have a: "\<And>x. g (f x) = Some x" and b: "\<And>x. f x \<noteq> []" and c: "\<And>S. fset_of_list (order S) = S"
    using iso ord by simp_all
  show ?thesis
    apply (cases due; cases cd)
       apply (simp_all add: a b c load_task_def dict_pop_def date_fields_def convert_enum_def construct_def
          dict_pop_default_def set_common_def Task_init_def ProjectTask_init_def RecurringTask_init_def
          setattr_def base_attrs_def Priority_lookup_name TaskStatus_lookup_name
          del: Priority_lookup.simps TaskStatus_lookup.simps)
       apply (rule ext, simp)+
    done
qed

lemma load_task_RecurringTask:
  assumes iso: "\<forall>x. g (f x) = Some x \<and> f x \<noteq> []" and ord: "\<forall>S. fset_of_list (order S) = S"
  shows "load_task g uu nn
       [(''id'', VStr i),
        (''title'', VStr t),
        (''description'', opt_str d),
        (''priority'', VStr (Priority_name p)),
        (''status'', VStr (TaskStatus_name s)),
        (''created_at'', VStr (f cr)),
        (''updated_at'', VStr (f u)),
        (''due_date'', opt_str (map_option f due)),
        (''completion_date'', opt_str (map_option f cd)),
        (''tags'', VStrList (order tags)),
        (''type'', VStr ''RecurringTask''),
        (''frequency'', VStr freq),
        (''recurrence_count'', VInt n),
        (''last_completed'', opt_str (map_option f lc))] =
     Returned (Some \<lparr>cls = RecurringTask,
       attrs = (base_attrs i t d p s cr u due cd tags)
         (''frequency'' \<mapsto> VStr freq,
          ''recurrence_count'' \<mapsto> VInt n,
          ''last_completed'' \<mapsto> opt_datetime lc)\<rparr>)"
proof -
  have a: "\<And>x. g (f x) = Some x" and b: "\<And>x. f x \<noteq> []" and c: "\<And>S. fset_of_list (order S) = S"
    using iso ord by simp_all
  show ?thesis
    apply (cases due; cases cd; cases lc)
       apply (simp_all add: a b c load_task_def dict_pop_def date_fields_def convert_enum_def construct_def
          dict_pop_default_def set_common_def Task_init_def ProjectTask_init_def RecurringTask_init_def
          setattr_def base_attrs_def Priority_lookup_name TaskStatus_lookup_name
          del: Priority_lookup.simps TaskStatus_lookup.simps)
       apply (rule ext, simp)+
    done
qed

lemma jsonable_opt_str: "jsonable (opt_str x)"
  by (cases x) simp_all

lemma roundtrip_task:
  assumes iso: "\<forall>x. g (f x) = Some x \<and> f x \<noteq> []" and ord: "\<forall>S. fset_of_list (order S) = S"
    and wf: "wf_task task"
  shows "\<exists>d. to_dict f order task = Returned d \<and> jsonable_dict d \<and>
             (\<forall>uu nn. load_task g uu nn d = Returned (Some task))"
  using wf
proof cases
  case (wf_SimpleTask i title description priority status created updated due completion tags)
  show ?thesis
    unfolding wf_SimpleTask to_dict_SimpleTask
    by (simp add: load_task_SimpleTask [OF iso ord] jsonable_dict_def jsonable_opt_str)
next
  case (wf_ProjectTask i title description priority status created updated due completion tags project
      dependencies estimated_hours)
  show ?thesis
    unfolding wf_ProjectTask to_dict_ProjectTask
    by (simp add: load_task_ProjectTask [OF iso ord] jsonable_dict_def jsonable_opt_str)
next
  case (wf_RecurringTask i title description priority status created updated due completion tags frequency
      recurrence_count last_completed)
  show ?thesis
    unfolding wf_RecurringTask to_dict_RecurringTask
    by (simp add: load_task_RecurringTask [OF iso ord] jsonable_dict_def jsonable_opt_str)
qed

lemma wf_task_id:
  assumes "wf_task task"
  shows "\<exists>i. attrs task ''id'' = Some (VStr i)"
  using assms by cases (simp_all add: base_attrs_def)

lemma to_dict_all_wf:
  assumes iso: "\<forall>x. g (f x) = Some x \<and> f x \<noteq> []" and ord: "\<forall>S. fset_of_list (order S) = S"
    and wf: "list_all wf_task ts"
  shows "\<exists>ds. to_dict_all f order ts = Returned ds \<and> list_all jsonable_dict ds \<and>
           list_all2 (\<lambda>task d. \<forall>uu nn. load_task g uu nn d = Returned (Some task)) ts ds"
  using wf
proof (induction ts)
  case Nil
  then show ?case by simp
next
  case (Cons task ts)
  from Cons.prems have "wf_task task" and "list_all wf_task ts" by simp_all
  from roundtrip_task [OF iso ord this(1)] obtain d where
    d: "to_dict f order task = Returned d" "jsonable_dict d"
       "\<forall>uu nn. load_task g uu nn d = Returned (Some task)"
    by blast
  from Cons.IH [OF \<open>list_all wf_task ts\<close>] obtain ds where
    ds: "to_dict_all f order ts = Returned ds" "list_all jsonable_dict ds"
        "list_all2 (\<lambda>task d. \<forall>uu nn. load_task g uu nn d = Returned (Some task)) ts ds"
    by blast
  have "to_dict_all f order (task # ts) = Returned (d # ds)"
    by (simp add: d(1) ds(1))
  with d ds show ?case by simp
qed

lemma update_fresh_key: "k \<notin> fst ` set al \<Longrightarrow> AList.update k v al = al @ [(k, v)]"
  by (induction al) auto

lemma load_tasks_all:
  assumes "list_all2 (\<lambda>kt d. (\<forall>uu nn. load_task g uu nn d = Returned (Some (snd kt))) \<and>
              (\<exists>i. fst kt = VStr i) \<and> attrs (snd kt) ''id'' = Some (fst kt)) kts ds"
    and "distinct (map fst (tasks m @ kts))"
  shows "load_tasks g uuid4 clock m n ds = (Returned True, m\<lparr>tasks := tasks m @ kts\<rparr>)"
  using assms
proof (induction kts ds arbitrary: m n rule: list_all2_induct)
  case Nil
  then show ?case by simp
next
  case (Cons kt kts d ds)
  obtain k task where kt: "kt = (k, task)" by (cases kt)
  from Cons.hyps(1) kt obtain i where
    ld: "load_task g (uuid4 n) (clock n) d = Returned (Some task)"
    and k: "k = VStr i" and idk: "attrs task ''id'' = Some k"
    by auto
  from Cons.prems kt have fresh: "k \<notin> fst ` set (tasks m)" by auto
  have set: "tasks_set m k task = m\<lparr>tasks := tasks m @ [(k, task)]\<rparr>"
    using fresh by (simp add: tasks_set_def k update_fresh_key)
  have dist: "distinct (map fst (tasks (tasks_set m k task) @ kts))"
    using Cons.prems kt by (simp add: set)
  have "load_tasks g uuid4 clock m n (d # ds) = load_tasks g uuid4 clock (tasks_set m k task) (Suc n) ds"
    by (simp add: ld getattr_def idk) (simp add: k)
  also have "\<dots> = (Returned True, (tasks_set m k task)\<lparr>tasks := tasks (tasks_set m k task) @ kts\<rparr>)"
    by (rule Cons.IH [OF dist])
  finally show ?case by (simp add: set kt)
qed

text \<open>
  Claim C1. Let \<open>fromisoformat\<close> read back what \<open>isoformat\<close> writes (which is never the
  empty string), and let the listing of a set contain exactly its elements. For every
  manager state of the data model, \<open>save_to_file\<close> returns, and \<open>load_from_file\<close> on the
  file written, into any manager, returns \<open>True\<close> and leaves exactly the saved state: the
  same tasks under the same identifiers, each with its class and all its attributes
  (identifier, title, status, priority, dates, tags and the attributes of its class), and the
  same history.
\<close>

theorem save_load_roundtrip:
  assumes iso: "\<forall>d. fromisoformat (isoformat d) = Some d \<and> isoformat d \<noteq> []"
    and ord: "\<forall>S. fset_of_list (order S) = S"
    and wf: "wf_manager self"
  shows "\<exists>file. save_to_file isoformat order self = Returned file \<and>
           load_from_file fromisoformat uuid4 clock other (Some file) = (Returned True, self)"
proof -
  let ?kts = "tasks self"
  from wf have wfs: "list_all wf_task (map snd ?kts)"
    and ids: "list_all (\<lambda>(k, task). wf_task task \<and> attrs task ''id'' = Some k) ?kts"
    and dist: "distinct (map fst ?kts)"
    and hist: "list_all jsonable_dict (task_history self)"
    by (auto simp: wf_manager_def list_all_iff)
  from to_dict_all_wf [OF iso ord wfs] obtain ds where
    ds: "to_dict_all isoformat order (map snd ?kts) = Returned ds" "list_all jsonable_dict ds"
        "list_all2 (\<lambda>task d. \<forall>uu nn. load_task fromisoformat uu nn d = Returned (Some task)) (map snd ?kts) ds"
    by blast
  let ?file = "[(''tasks'', ds), (''history'', task_history self)]"
  have save: "save_to_file isoformat order self = Returned ?file"
    by (simp add: save_to_file_def ds(1,2) hist)
  have "list_all2 (\<lambda>kt d. (\<forall>uu nn. load_task fromisoformat uu nn d = Returned (Some (snd kt))) \<and>
              (\<exists>i. fst kt = VStr i) \<and> attrs (snd kt) ''id'' = Some (fst kt)) ?kts ds"
  proof -
    have len: "length ?kts = length ds"
      using ds(3) by (auto dest: list_all2_lengthD)
    show ?thesis
    proof (rule list_all2_all_nthI [OF len])
      fix n assume n: "n < length ?kts"
      then have mem: "?kts ! n \<in> set ?kts" by simp
      obtain k task where kt: "?kts ! n = (k, task)" by (cases "?kts ! n")
      from ids mem kt have w: "wf_task task" and idk: "attrs task ''id'' = Some k"
        by (auto simp: list_all_iff)
      from wf_task_id [OF w] idk have "\<exists>i. k = VStr i" by auto
      moreover from ds(3) n have "\<forall>uu nn. load_task fromisoformat uu nn (ds ! n) = Returned (Some (snd (?kts ! n)))"
        by (auto simp: list_all2_conv_all_nth)
      ultimately show "(\<forall>uu nn. load_task fromisoformat uu nn (ds ! n) = Returned (Some (snd (?kts ! n)))) \<and>
              (\<exists>i. fst (?kts ! n) = VStr i) \<and> attrs (snd (?kts ! n)) ''id'' = Some (fst (?kts ! n))"
        using idk kt by simp
    qed
  qed
  from load_tasks_all [OF this, of "other\<lparr>tasks := [], task_history := task_history self\<rparr>" uuid4 clock 0] dist
  have "load_tasks fromisoformat uuid4 clock (other\<lparr>tasks := [], task_history := task_history self\<rparr>) 0 ds =
          (Returned True, self)"
    by simp
  then have "load_from_file fromisoformat uuid4 clock other (Some ?file) = (Returned True, self)"
    by (simp add: load_from_file_def)
  with save show ?thesis by blast
qed

lemma tally_roundtrip: "tally_fromisoformat (tally_isoformat d) = Some d \<and> tally_isoformat d \<noteq> []"
  by (simp add: tally_fromisoformat_def tally_isoformat_def)

lemma wf_pay_rent: "wf_task pay_rent"
proof -
  have "pay_rent = \<lparr>cls = SimpleTask,
      attrs = base_attrs ''a1'' ''pay rent'' None MEDIUM NOT_STARTED 10 10 None None {||}\<rparr>"
    by (simp add: pay_rent_def Task_init_def base_attrs_def)
  then show ?thesis by (rule ssubst) (rule wf_SimpleTask)
qed

lemma wf_audit_report: "wf_task audit_report"
proof -
  have "audit_report = \<lparr>cls = ProjectTask,
      attrs = (base_attrs ''p1'' ''report'' None HIGH NOT_STARTED 10 10 None None {||})
        (''project'' \<mapsto> VStr ''audit'', ''dependencies'' \<mapsto> VStrSet {||},
         ''estimated_hours'' \<mapsto> VFloat 1)\<rparr>"
    by (simp add: audit_report_def ProjectTask_init_def Task_init_def base_attrs_def setattr_def)
  then show ?thesis by (rule ssubst) (rule wf_ProjectTask)
qed

lemma wf_weekly_chore: "wf_task weekly_chore"
proof -
  have "weekly_chore = \<lparr>cls = RecurringTask,
      attrs = (base_attrs ''r1'' ''water plants'' None LOW NOT_STARTED 10 10 (Some 1000) None {||})
        (''frequency'' \<mapsto> VStr ''weekly'', ''recurrence_count'' \<mapsto> VInt 0,
         ''last_completed'' \<mapsto> opt_datetime None)\<rparr>"
    by (simp add: weekly_chore_def RecurringTask_init_def Task_init_def base_attrs_def setattr_def)
  then show ?thesis by (rule ssubst) (rule wf_RecurringTask)
qed

lemma sample_ids:
  "attrs pay_rent ''id'' = Some (VStr ''a1'')"
  "attrs audit_report ''id'' = Some (VStr ''p1'')"
  "attrs weekly_chore ''id'' = Some (VStr ''r1'')"
  by (simp_all add: pay_rent_def audit_report_def weekly_chore_def ProjectTask_init_def RecurringTask_init_def
        Task_init_def setattr_def)

lemma wf_office: "wf_manager office"
  by (simp add: wf_manager_def office_def wf_pay_rent wf_audit_report wf_weekly_chore sample_ids jsonable_dict_def)

theorem save_load_roundtrip_witness:
  "(\<forall>d. tally_fromisoformat (tally_isoformat d) = Some d \<and> tally_isoformat d \<noteq> []) \<and>
   (\<forall>S :: string fset. fset_of_list (sorted_list_of_fset S) = S) \<and>
   wf_manager office \<and>
   (\<exists>file. save_to_file tally_isoformat sorted_list_of_fset office = Returned file \<and>
      load_from_file tally_fromisoformat (\<lambda>n. ''fresh'') (\<lambda>n. 0) TaskManager_init (Some file) =
        (Returned True, office))"
proof -
  have a: "\<forall>d. tally_fromisoformat (tally_isoformat d) = Some d \<and> tally_isoformat d \<noteq> []"
    by (simp add: tally_roundtrip)
  have b: "\<forall>S :: string fset. fset_of_list (sorted_list_of_fset S) = S"
    by simp
  from save_load_roundtrip [OF a b wf_office] a b wf_office show ?thesis by blast
qed

end
